theory Spec2Isabelle
  imports Complex_Main "HOL-Library.AList"
begin

section \<open>Frames from the gateway and the event emitter (openclaw-client/src/events.ts)\<close>

text \<open>
  The client hands \<open>processRawEvent\<close> whatever \<open>JSON.parse\<close> returned, cast to
  \<open>OpenClawEvent\<close> without a check, so a frame is any JSON value. \<open>JUndefined\<close> is the
  value of a key that is absent.
\<close>

datatype json =
    JUndefined
  | JNull
  | JBool bool
  | JNumber real
  | JString string
  | JArray "json list"
  | JObject "(string \<times> json) list"

text \<open>What the emitter can throw: a \<open>TypeError\<close> on reading a key of \<open>null\<close> or
  \<open>undefined\<close>, and the error \<open>emit\<close> throws for the event name \<open>error\<close> when no listener
  is registered for it.\<close>

datatype js_error = TypeError | UnhandledError

text \<open>
  Reading a key. \<open>property v k\<close> is \<open>v.k\<close> for a value that is neither \<open>null\<close> nor
  \<open>undefined\<close>, and \<open>v?.k\<close> for any value: an object gives the value stored under the
  key, every other value \<open>undefined\<close> (none of the keys the emitter reads is a built-in
  property). \<open>first_element v\<close> is \<open>v?.[0]\<close>.
\<close>

definition nullish :: "json \<Rightarrow> bool" where
  "nullish v = (v = JUndefined \<or> v = JNull)"

definition property :: "json \<Rightarrow> string \<Rightarrow> json" where
  "property v k =
     (case v of
        JObject fields \<Rightarrow> (case map_of fields k of None \<Rightarrow> JUndefined | Some x \<Rightarrow> x)
      | _ \<Rightarrow> JUndefined)"

definition first_element :: "json \<Rightarrow> json" where
  "first_element v =
     (case v of
        JArray xs \<Rightarrow> (case xs of [] \<Rightarrow> JUndefined | x # _ \<Rightarrow> x)
      | JString s \<Rightarrow> (case s of [] \<Rightarrow> JUndefined | c # _ \<Rightarrow> JString [c])
      | JObject fields \<Rightarrow> (case map_of fields ''0'' of None \<Rightarrow> JUndefined | Some x \<Rightarrow> x)
      | _ \<Rightarrow> JUndefined)"

text \<open>\<open>v || ''\<close>, and the destructuring default \<open>sessionKey = ''\<close>, which applies to
  \<open>undefined\<close> only.\<close>

definition truthy :: "json \<Rightarrow> bool" where
  "truthy v =
     (case v of
        JUndefined \<Rightarrow> False
      | JNull \<Rightarrow> False
      | JBool b \<Rightarrow> b
      | JNumber x \<Rightarrow> x \<noteq> 0
      | JString s \<Rightarrow> s \<noteq> []
      | _ \<Rightarrow> True)"

definition or_empty :: "json \<Rightarrow> json" where
  "or_empty v = (if truthy v then v else JString [])"

definition default_empty :: "json \<Rightarrow> json" where
  "default_empty v = (if v = JUndefined then JString [] else v)"

text \<open>A call of \<open>emit\<close>: the event name and the arguments. \<open>typed\<close> is an emission under a
  name the emitter writes itself.\<close>

datatype emission = Emission json "json list"

definition typed :: "string \<Rightarrow> json list \<Rightarrow> emission" where
  "typed name arguments = Emission (JString name) arguments"

text \<open>\<open>processAgentEvent\<close>: the destructuring of the payload, then the \<open>switch\<close> on the
  stream; reading \<open>data.phase\<close>, \<open>data.toolName\<close> or \<open>data.text\<close> throws when \<open>data\<close> is
  \<open>null\<close> or absent.\<close>

definition processAgentEvent :: "json \<Rightarrow> js_error + emission list" where
  "processAgentEvent payload =
     (if nullish payload then Inl TypeError
      else (let runId = property payload ''runId'';
                sessionKey = default_empty (property payload ''sessionKey'');
                stream = property payload ''stream'';
                data = property payload ''data''
            in (if stream = JString ''lifecycle'' then
                  (if nullish data then Inl TypeError
                   else (let phase = property data ''phase''
                         in (if phase = JString ''start''
                             then Inr [typed ''lifecycle:start'' [runId, sessionKey, data]]
                             else if phase = JString ''end''
                             then Inr [typed ''lifecycle:end'' [runId, sessionKey, data]]
                             else if phase = JString ''error''
                             then Inr [typed ''lifecycle:error'' [runId, sessionKey, property data ''error'']]
                             else Inr [])))
                else if stream = JString ''tool'' then
                  (if nullish data then Inl TypeError
                   else Inr [typed ''tool:call'' [runId, property data ''toolName'', property data ''args'']])
                else if stream = JString ''assistant'' then
                  (if nullish data then Inl TypeError
                   else Inr [typed ''assistant:delta'' [runId, property data ''text'']])
                else Inr [])))"

text \<open>\<open>message?.content?.[0]?.text || ''\<close>.\<close>

definition first_block_text :: "json \<Rightarrow> json" where
  "first_block_text message = or_empty (property (first_element (property message ''content'')) ''text'')"

definition processChatEvent :: "json \<Rightarrow> js_error + emission list" where
  "processChatEvent payload =
     (if nullish payload then Inl TypeError
      else (let runId = property payload ''runId'';
                state = property payload ''state'';
                message = property payload ''message'';
                text = first_block_text message
            in (if state = JString ''delta'' then Inr [typed ''assistant:delta'' [runId, text]]
                else if state = JString ''final'' then Inr [typed ''assistant:final'' [runId, text]]
                else Inr [])))"

text \<open>
  \<open>processRawEvent\<close>: the raw event is re-emitted under its own \<open>type\<close>, whatever that is,
  then an agent event and a chat event are processed further. The result is the
  emissions made, in order, and the error thrown, if any. \<open>emit\<close> throws for the name
  \<open>error\<close> unless a listener is registered for it (\<open>error_listener\<close>); nothing in the
  repository registers one.
\<close>

definition processRawEvent :: "bool \<Rightarrow> json \<Rightarrow> emission list \<times> js_error option" where
  "processRawEvent error_listener event =
     (if nullish event then ([], Some TypeError)
      else (let type = property event ''type'';
                payload = property event ''payload''
            in (if type = JString ''error'' \<and> \<not> error_listener then ([], Some UnhandledError)
                else (case (if type = JString ''agent'' then processAgentEvent payload else Inr []) of
                        Inl e \<Rightarrow> ([Emission type [payload]], Some e)
                      | Inr from_agent \<Rightarrow>
                          (case (if type = JString ''chat'' then processChatEvent payload else Inr []) of
                             Inl e \<Rightarrow> (Emission type [payload] # from_agent, Some e)
                           | Inr from_chat \<Rightarrow>
                               (Emission type [payload] # from_agent @ from_chat, None))))))"

text \<open>\<open>normalize\<close> reads off the emissions made under the name of a typed event, the ones
  the bridge listens to: the empty list is the spec's \<open>None\<close>.\<close>

definition typed_event_names :: "string list" where
  "typed_event_names = [''lifecycle:start'', ''lifecycle:end'', ''lifecycle:error'', ''tool:call'',
                        ''assistant:delta'', ''assistant:final'']"

fun is_typed :: "emission \<Rightarrow> bool" where
  "is_typed (Emission (JString name) _) = (name \<in> set typed_event_names)"
| "is_typed _ = False"


section \<open>The reconnecting event-source client (openclaw-client/src/client.ts)\<close>

text \<open>
  The client owns one socket at a time. The field \<open>ws\<close> is \<open>None\<close> for \<open>null\<close> and
  otherwise holds the ready state of the current socket. Every callback of the source
  becomes a function from the client to the updated client and the list of effects it
  performs, in program order: signals emitted to listeners, frames sent on the socket,
  timers armed, console output, an exception leaving the callback, and the settling of
  the promise \<open>connect\<close> returned. Of the listener table of \<open>events\<close> the client keeps
  whether a listener is registered for \<open>error\<close>: \<open>emit\<close> throws for that name when there
  is none.
  JavaScript numbers are doubles; every number below is a small non-negative integer
  (at most \<open>reconnectDelay * 2 ^ 9\<close>), which doubles hold exactly, so \<open>nat\<close> is used.
\<close>

datatype ready_state = CONNECTING | OPEN | CLOSING | CLOSED

datatype disconnect_reason = Reason string | CloseCode nat

datatype client_signal = connected | disconnected disconnect_reason | error_signal string

datatype frame = Subscribe "string list"

datatype effect =
    Emit client_signal
  | WsSend frame
  | WsClose
  | NewWebSocket
  | SetTimeout nat
  | ConsoleLog nat nat
  | ConsoleError string
  | EmitEvent emission
  | Throw string
  | Resolve
  | Reject string

record OpenClawClient =
  ws :: "ready_state option"
  reconnectAttempts :: nat
  maxReconnectAttempts :: nat
  reconnectDelay :: nat
  isConnecting :: bool
  events_error_listener :: bool

text \<open>The field initialisers of the class; the emitter starts with no listener.\<close>

definition newClient :: OpenClawClient where
  "newClient = \<lparr> ws = None, reconnectAttempts = 0, maxReconnectAttempts = 10,
                 reconnectDelay = 1000, isConnecting = False,
                 events_error_listener = False \<rparr>"

text \<open>
  \<open>connect\<close>: while connecting or open it returns at once, which resolves its
  promise; otherwise it marks the client as connecting and creates the socket. The flag \<open>throws\<close> says whether the \<open>WebSocket\<close>
  constructor raises (the \<open>catch\<close> branch), with the message it raises.
\<close>

definition connect :: "string option \<Rightarrow> OpenClawClient \<Rightarrow> OpenClawClient \<times> effect list" where
  "connect throws c =
     (if isConnecting c \<or> ws c = Some OPEN then (c, [Resolve])
      else (case throws of
              None \<Rightarrow> (c\<lparr>isConnecting := True, ws := Some CONNECTING\<rparr>, [NewWebSocket])
            | Some err \<Rightarrow> (c\<lparr>isConnecting := False\<rparr>, [Reject err])))"

text \<open>The subscription frame sent on every successful connect.\<close>

definition handshake :: frame where
  "handshake = Subscribe [''agent'', ''chat'', ''session'', ''heartbeat'']"

text \<open>The \<open>open\<close> callback, statement by statement; \<open>this.ws?.send\<close> sends only when
  \<open>ws\<close> is not \<open>null\<close>.\<close>

definition onOpen :: "OpenClawClient \<Rightarrow> OpenClawClient \<times> effect list" where
  "onOpen c =
     (let c1 = c\<lparr>isConnecting := False\<rparr>;
          c2 = c1\<lparr>reconnectAttempts := 0\<rparr>
      in (c2,
          [Emit connected]
          @ (case ws c2 of
               None \<Rightarrow> []
             | Some _ \<Rightarrow> [WsSend handshake])
          @ [Resolve]))"

definition scheduleReconnect :: "OpenClawClient \<Rightarrow> OpenClawClient \<times> effect list" where
  "scheduleReconnect c =
     (if reconnectAttempts c \<ge> maxReconnectAttempts c
      then (c, [ConsoleError ''Max reconnection attempts reached''])
      else (let c1 = c\<lparr>reconnectAttempts := reconnectAttempts c + 1\<rparr>;
                delay = reconnectDelay c1 * 2 ^ (reconnectAttempts c1 - 1)
            in (c1, [ConsoleLog delay (reconnectAttempts c1), SetTimeout delay])))"

text \<open>The \<open>close\<close> callback: \<open>reason.toString() || `Code: ${code}`\<close>, then
  \<open>scheduleReconnect\<close>.\<close>

definition onClose :: "nat \<Rightarrow> string \<Rightarrow> OpenClawClient \<Rightarrow> OpenClawClient \<times> effect list" where
  "onClose code reason c =
     (let c1 = c\<lparr>isConnecting := False\<rparr>;
          r = (if reason \<noteq> [] then Reason reason else CloseCode code);
          (c2, effs) = scheduleReconnect c1
      in (c2, Emit (disconnected r) # effs))"

text \<open>The \<open>error\<close> callback. With no listener for \<open>error\<close> the \<open>emit\<close> throws the error
  and the callback ends there, before \<open>reject\<close>.\<close>

definition onError :: "string \<Rightarrow> OpenClawClient \<Rightarrow> OpenClawClient \<times> effect list" where
  "onError err c =
     (let c1 = c\<lparr>isConnecting := False\<rparr>
      in (if events_error_listener c1
          then (c1, Emit (error_signal err)
                    # (if reconnectAttempts c1 = 0 then [Reject err] else []))
          else (c1, [Throw err])))"

text \<open>The \<open>message\<close> callback: \<open>JSON.parse\<close> of the data (\<open>None\<close> when the data is not
  JSON), then \<open>processRawEvent\<close>; whatever either throws is caught and logged.\<close>

definition onMessage :: "json option \<Rightarrow> OpenClawClient \<Rightarrow> OpenClawClient \<times> effect list" where
  "onMessage parsed c =
     (case parsed of
        None \<Rightarrow> (c, [ConsoleError ''Failed to parse WebSocket message:''])
      | Some event \<Rightarrow>
          (let (emissions, thrown) = processRawEvent (events_error_listener c) event
           in (c, map EmitEvent emissions
                  @ (case thrown of
                       None \<Rightarrow> []
                     | Some _ \<Rightarrow> [ConsoleError ''Failed to parse WebSocket message:'']))))"

definition disconnect :: "OpenClawClient \<Rightarrow> OpenClawClient \<times> effect list" where
  "disconnect c =
     (let c1 = c\<lparr>reconnectAttempts := maxReconnectAttempts c\<rparr>
      in (c1\<lparr>ws := None\<rparr>, (case ws c1 of None \<Rightarrow> [] | Some _ \<Rightarrow> [WsClose])))"

text \<open>
  What can happen to a client: the socket's callbacks fire (the library has set the
  socket's ready state before \<open>open\<close> and \<open>close\<close> fire), an armed timer fires and calls
  \<open>connect\<close>, or the owner calls \<open>connect\<close> or \<open>disconnect\<close>.
\<close>

datatype client_event =
    SocketOpen
  | SocketMessage "json option"
  | SocketClose nat string
  | SocketError string
  | TimerFires "string option"
  | CallConnect "string option"
  | CallDisconnect

definition socket_state :: "ready_state \<Rightarrow> OpenClawClient \<Rightarrow> OpenClawClient" where
  "socket_state st c = (case ws c of None \<Rightarrow> c | Some _ \<Rightarrow> c\<lparr>ws := Some st\<rparr>)"

fun client_step :: "client_event \<Rightarrow> OpenClawClient \<Rightarrow> OpenClawClient \<times> effect list" where
  "client_step SocketOpen c = onOpen (socket_state OPEN c)"
| "client_step (SocketMessage parsed) c = onMessage parsed c"
| "client_step (SocketClose code reason) c = onClose code reason (socket_state CLOSED c)"
| "client_step (SocketError err) c = onError err c"
| "client_step (TimerFires throws) c = connect throws c"
| "client_step (CallConnect throws) c = connect throws c"
| "client_step CallDisconnect c = disconnect c"



text \<open>The position of the first occurrence of an effect in a list of effects.\<close>

fun first_index :: "effect \<Rightarrow> effect list \<Rightarrow> nat option" where
  "first_index e [] = None"
| "first_index e (x # xs) =
     (if x = e then Some 0 else map_option Suc (first_index e xs))"

text \<open>
  The order the spec asks of a successful connect: if \<open>connected\<close> is signalled at all,
  the subscription frame has been sent at an earlier position.
\<close>

definition handshake_before_connected :: "effect list \<Rightarrow> bool" where
  "handshake_before_connected effs =
     (case first_index (Emit connected) effs of
        None \<Rightarrow> True
      | Some j \<Rightarrow> (case first_index (WsSend handshake) effs of
                     None \<Rightarrow> False
                   | Some i \<Rightarrow> i < j))"

section \<open>Broadcast messages (the \<open>WSMessage\<close> of the shared types)\<close>

datatype task_status = Inbox | Assigned | InProgress | Review | Blocked | Done | Cancelled

datatype task_outcome = Success | Failed | OutcomeCancelled

datatype agent_status = Idle | Working | Waiting | Offline

datatype ws_message_type =
  task_update | agent_update | activity | output_delta | block_request | stats_update | pong

text \<open>The \<open>changes\<close> of a task update and of an agent update, key by key.\<close>

datatype task_change =
    status_change task_status
  | startedAt_change nat
  | outcome_change task_outcome
  | output_change string
  | completedAt_change nat

datatype agent_change = agent_status_change agent_status

text \<open>
  The \<open>data\<close> of a message, one constructor per shape the server builds:
  \<open>{taskId, changes}\<close>, \<open>{agentId, changes}\<close>, \<open>{taskId, action, details}\<close>,
  \<open>{taskId, runId, delta, fullOutput}\<close>, the welcome \<open>{connected: true}\<close>, the empty
  object of a pong, and any other object, of which only its \<open>taskId\<close> key is kept.
\<close>

datatype ws_data =
    TaskUpdateMessage string "task_change list"
  | AgentUpdateMessage string "agent_change list"
  | ActivityMessage string string "(string \<times> string) list"
  | OutputDeltaMessage string string string string
  | ConnectedData
  | EmptyData
  | OtherData "string option"

record WSMessage =
  msg_type :: ws_message_type
  msg_data :: ws_data
  timestamp :: nat

text \<open>\<open>(message.data as any).taskId\<close>.\<close>

fun data_taskId :: "ws_data \<Rightarrow> string option" where
  "data_taskId (TaskUpdateMessage t _) = Some t"
| "data_taskId (ActivityMessage t _ _) = Some t"
| "data_taskId (OutputDeltaMessage t _ _ _) = Some t"
| "data_taskId (OtherData k) = k"
| "data_taskId _ = None"

section \<open>The broadcast hub (the WebSocket server of the API)\<close>

text \<open>
  A socket is known by its identity. \<open>clients\<close> is the JavaScript \<open>Map\<close> from sockets to
  client objects, kept as an association list in insertion order: \<open>set\<close> is
  \<open>AList.update\<close>, \<open>delete\<close> is \<open>AList.delete\<close>, \<open>get\<close> is \<open>map_of\<close>. A client object is
  reached through the map only, so the \<open>client\<close> a callback receives is the value stored
  under its socket, and its field \<open>ws\<close> is that socket. The hub also records what
  happened to every socket: its ready state, the frames sent on it in order, and the
  number of pings sent on it.
\<close>

type_synonym sock = nat

record WSClient =
  subscribedTasks :: "string set"
  isAlive :: bool

record hub =
  clients :: "(sock \<times> WSClient) list"
  readyState :: "sock \<Rightarrow> ready_state"
  outbox :: "sock \<Rightarrow> WSMessage list"
  pings :: "sock \<Rightarrow> nat"

text \<open>\<open>clients.forEach\<close>: the callback runs once for every key of the map, in insertion
  order. No callback of the hub adds a key or touches another key's entry.\<close>

definition forEach :: "(sock \<Rightarrow> hub \<Rightarrow> hub) \<Rightarrow> hub \<Rightarrow> hub" where
  "forEach body h = fold body (map fst (clients h)) h"

text \<open>Send a message to a single client: only an open socket takes the frame.\<close>

definition send :: "sock \<Rightarrow> WSMessage \<Rightarrow> hub \<Rightarrow> hub" where
  "send w m h =
     (if readyState h w = OPEN then h\<lparr>outbox := (outbox h)(w := outbox h w @ [m])\<rparr> else h)"

text \<open>Broadcast to all clients.\<close>

definition broadcast :: "WSMessage \<Rightarrow> hub \<Rightarrow> hub" where
  "broadcast m h = forEach (\<lambda>w. send w m) h"

text \<open>Broadcast to the clients subscribed to one task.\<close>

definition send_if_subscribed :: "string \<Rightarrow> WSMessage \<Rightarrow> sock \<Rightarrow> hub \<Rightarrow> hub" where
  "send_if_subscribed taskId m w h =
     (case map_of (clients h) w of
        None \<Rightarrow> h
      | Some client \<Rightarrow> (if taskId \<in> subscribedTasks client then send w m h else h))"

definition broadcastToTask :: "string \<Rightarrow> WSMessage \<Rightarrow> hub \<Rightarrow> hub" where
  "broadcastToTask taskId m h = forEach (send_if_subscribed taskId m) h"

text \<open>The listener on the bridge's \<open>ws:broadcast\<close>. A \<open>taskId\<close> is truthy when it is
  present and not the empty string.\<close>

definition on_ws_broadcast :: "WSMessage \<Rightarrow> hub \<Rightarrow> hub" where
  "on_ws_broadcast m h =
     (let h1 = (if msg_type m = task_update \<or> msg_type m = output_delta
                then (case data_taskId (msg_data m) of
                        None \<Rightarrow> h
                      | Some taskId \<Rightarrow> (if taskId \<noteq> [] then broadcastToTask taskId m h else h))
                else h)
      in broadcast m h1)"

text \<open>The heartbeat timer: a client that is not alive is deleted and its socket
  terminated; any other client is marked not alive and pinged.\<close>

definition heartbeat_client :: "sock \<Rightarrow> hub \<Rightarrow> hub" where
  "heartbeat_client w h =
     (case map_of (clients h) w of
        None \<Rightarrow> h
      | Some client \<Rightarrow>
          (if \<not> isAlive client
           then h\<lparr>clients := AList.delete w (clients h),
                  readyState := (readyState h)(w := CLOSING)\<rparr>
           else h\<lparr>clients := AList.update w (client\<lparr>isAlive := False\<rparr>) (clients h),
                  pings := (pings h)(w := pings h w + 1)\<rparr>))"

definition heartbeat :: "hub \<Rightarrow> hub" where
  "heartbeat h = forEach heartbeat_client h"

text \<open>A new connection: the client is registered alive with no subscriptions and is
  sent the welcome message.\<close>

definition on_connection :: "nat \<Rightarrow> sock \<Rightarrow> hub \<Rightarrow> hub" where
  "on_connection now w h =
     send w \<lparr>msg_type = stats_update, msg_data = ConnectedData, timestamp = now\<rparr>
       (h\<lparr>clients := AList.update w \<lparr>subscribedTasks = {}, isAlive = True\<rparr> (clients h)\<rparr>)"

definition on_pong :: "sock \<Rightarrow> hub \<Rightarrow> hub" where
  "on_pong w h =
     (case map_of (clients h) w of
        None \<Rightarrow> h
      | Some c \<Rightarrow> h\<lparr>clients := AList.update w (c\<lparr>isAlive := True\<rparr>) (clients h)\<rparr>)"

definition on_close :: "sock \<Rightarrow> hub \<Rightarrow> hub" where
  "on_close w h = h\<lparr>clients := AList.delete w (clients h)\<rparr>"

text \<open>
  The messages a client may send. \<open>handleClientMessage\<close> changes the client object the
  connection was registered with; once that object has left the map, no one reads it
  again, so the change is kept only while the socket is registered. A frame that is not
  JSON, or has another type, changes nothing.
\<close>

datatype client_message = subscribe_task string | unsubscribe_task string | ping | unknown_message

definition update_client :: "sock \<Rightarrow> (WSClient \<Rightarrow> WSClient) \<Rightarrow> hub \<Rightarrow> hub" where
  "update_client w f h =
     (case map_of (clients h) w of
        None \<Rightarrow> h
      | Some c \<Rightarrow> h\<lparr>clients := AList.update w (f c) (clients h)\<rparr>)"

fun handleClientMessage :: "nat \<Rightarrow> sock \<Rightarrow> client_message \<Rightarrow> hub \<Rightarrow> hub" where
  "handleClientMessage now w (subscribe_task t) h =
     update_client w (\<lambda>c. c\<lparr>subscribedTasks := insert t (subscribedTasks c)\<rparr>) h"
| "handleClientMessage now w (unsubscribe_task t) h =
     update_client w (\<lambda>c. c\<lparr>subscribedTasks := subscribedTasks c - {t}\<rparr>) h"
| "handleClientMessage now w ping h =
     send w \<lparr>msg_type = pong, msg_data = EmptyData, timestamp = now\<rparr> h"
| "handleClientMessage now w unknown_message h = h"

text \<open>Everything that can happen to the hub. The library opens the socket before
  \<open>connection\<close> fires and has closed it when \<open>close\<close> fires.\<close>

datatype hub_event =
    Connection nat sock
  | Pong sock
  | ClientMessage nat sock client_message
  | Close sock
  | Heartbeat
  | BridgeBroadcast WSMessage

fun hub_step :: "hub_event \<Rightarrow> hub \<Rightarrow> hub" where
  "hub_step (Connection now w) h = on_connection now w (h\<lparr>readyState := (readyState h)(w := OPEN)\<rparr>)"
| "hub_step (Pong w) h = on_pong w h"
| "hub_step (ClientMessage now w m) h = handleClientMessage now w m h"
| "hub_step (Close w) h = on_close w (h\<lparr>readyState := (readyState h)(w := CLOSED)\<rparr>)"
| "hub_step Heartbeat h = heartbeat h"
| "hub_step (BridgeBroadcast m) h = on_ws_broadcast m h"

definition hub_run :: "hub_event list \<Rightarrow> hub \<Rightarrow> hub" where
  "hub_run evs h = fold hub_step evs h"

text \<open>The server starts with no client.\<close>

definition new_hub :: hub where
  "new_hub = \<lparr>clients = [], readyState = (\<lambda>_. CLOSED), outbox = (\<lambda>_. []), pings = (\<lambda>_. 0)\<rparr>"

text \<open>The task subscriptions the hub holds for a socket.\<close>

definition subscriptions :: "hub \<Rightarrow> sock \<Rightarrow> string set" where
  "subscriptions h w = (case map_of (clients h) w of None \<Rightarrow> {} | Some c \<Rightarrow> subscribedTasks c)"

definition registered :: "hub \<Rightarrow> sock \<Rightarrow> bool" where
  "registered h w = (map_of (clients h) w \<noteq> None)"

text \<open>The frames sent to a socket between two states of the hub.\<close>

definition delivered :: "hub \<Rightarrow> hub \<Rightarrow> sock \<Rightarrow> WSMessage list" where
  "delivered h h' w = drop (length (outbox h w)) (outbox h' w)"

section \<open>The persistence store\<close>

text \<open>
  The tables of the schema, with the columns the bridge reads or writes. A table is the
  list of its rows in insertion order; \<open>findFirst\<close> returns the first row that matches.
  The columns \<open>id\<close> are primary keys, and the database runs with foreign keys enforced.
\<close>

record Task =
  task_id :: string
  status :: task_status
  assignedAgentId :: "string option"
  openclawRunId :: "string option"
  startedAt :: "nat option"
  completedAt :: "nat option"
  outcome :: "task_outcome option"
  task_output :: "string option"
  tokensUsed :: int

record Agent =
  agent_id :: string
  agent_state :: agent_status
  completedTasks :: int
  totalTokens :: int
  lastActiveAt :: "nat option"

datatype activity_action =
    task_created | task_assigned | task_started | task_completed | task_failed
  | task_blocked | task_unblocked | task_cancelled | comment_added | agent_spawned
  | status_changed

record Activity =
  activity_id :: string
  activity_taskId :: "string option"
  activity_agentId :: "string option"
  action :: activity_action
  details :: "(string \<times> string) list"
  createdAt :: nat

record OutputBuffer =
  buffer_id :: string
  buffer_taskId :: string
  buffer_runId :: string
  buffer_content :: string
  lastSeq :: nat
  updatedAt :: nat

record Database =
  tasks :: "Task list"
  agents :: "Agent list"
  activities :: "Activity list"
  outputBuffers :: "OutputBuffer list"

datatype db_error = UniqueConstraint | ForeignKeyConstraint

text \<open>\<open>update(tasks).set(...).where(eq(tasks.id, id))\<close> and the same for agents.\<close>

definition update_tasks :: "string \<Rightarrow> (Task \<Rightarrow> Task) \<Rightarrow> Database \<Rightarrow> Database" where
  "update_tasks tid f d = d\<lparr>tasks := map (\<lambda>t. if task_id t = tid then f t else t) (tasks d)\<rparr>"

definition update_agents :: "string \<Rightarrow> (Agent \<Rightarrow> Agent) \<Rightarrow> Database \<Rightarrow> Database" where
  "update_agents aid f d = d\<lparr>agents := map (\<lambda>a. if agent_id a = aid then f a else a) (agents d)\<rparr>"

definition find_agent :: "Database \<Rightarrow> string \<Rightarrow> Agent option" where
  "find_agent d aid = find (\<lambda>a. agent_id a = aid) (agents d)"

text \<open>\<open>update(outputBuffers).set(...).where(eq(outputBuffers.runId, runId))\<close>: every row
  of the run.\<close>

definition update_buffers :: "string \<Rightarrow> (OutputBuffer \<Rightarrow> OutputBuffer) \<Rightarrow> Database \<Rightarrow> Database" where
  "update_buffers rid f d =
     d\<lparr>outputBuffers := map (\<lambda>b. if buffer_runId b = rid then f b else b) (outputBuffers d)\<rparr>"

text \<open>A reference is satisfied when it is null or names a row of the table.\<close>

definition references :: "string option \<Rightarrow> string list \<Rightarrow> bool" where
  "references k ids = (case k of None \<Rightarrow> True | Some i \<Rightarrow> i \<in> set ids)"

text \<open>A plain insert into \<open>activities\<close>: the statement fails on a primary key already in
  use and on a task or agent reference that names no row.\<close>

definition insert_activity :: "Activity \<Rightarrow> Database \<Rightarrow> db_error + Database" where
  "insert_activity row d =
     (if activity_id row \<in> set (map activity_id (activities d)) then Inl UniqueConstraint
      else if \<not> (references (activity_taskId row) (map task_id (tasks d))
                  \<and> references (activity_agentId row) (map agent_id (agents d)))
      then Inl ForeignKeyConstraint
      else Inr (d\<lparr>activities := activities d @ [row]\<rparr>))"

text \<open>
  The insert into \<open>output_buffers\<close> with \<open>onConflictDoNothing\<close>: the only uniqueness
  constraint of the table is its primary key \<open>id\<close>, so the row is skipped exactly when
  its \<open>id\<close> is in use. The task it refers to is the one the handler has just read.
\<close>

definition insert_buffer_on_conflict_do_nothing :: "OutputBuffer \<Rightarrow> Database \<Rightarrow> Database" where
  "insert_buffer_on_conflict_do_nothing row d =
     (if buffer_id row \<in> set (map buffer_id (outputBuffers d)) then d
      else d\<lparr>outputBuffers := outputBuffers d @ [row]\<rparr>)"

section \<open>The bridge (the Task-State Reconciler and the Output Accumulator)\<close>

text \<open>
  The state of an \<open>OpenClawBridge\<close>: the in-memory \<open>outputAccumulators\<close> map, the
  database, and the \<open>ws:broadcast\<close> messages it has emitted, in order. What a handler
  takes from outside is passed in: one reading of the clock and the identifiers
  \<open>ids.run()\<close> and \<open>ids.activity()\<close> would generate. A failed insert rejects the
  handler's promise, which nothing awaits; the model returns the error in place of a
  state.
\<close>

text \<open>The \<open>data\<close> object of a lifecycle event as the handlers' signatures type it, with
  the keys of the gateway's events, each absent or present.\<close>

record event_data =
  phase :: "string option"
  error_text :: "string option"
  toolName :: "string option"
  args :: "string option"
  delta_text :: "string option"
  tokens :: "int option"

record OpenClawBridge =
  outputAccumulators :: "string \<rightharpoonup> string"
  db :: Database
  ws_broadcast :: "WSMessage list"

record environment =
  clock :: nat
  generated_run_id :: string
  generated_activity_id :: string

definition findTaskByRunId :: "Database \<Rightarrow> string \<Rightarrow> Task option" where
  "findTaskByRunId d rid = find (\<lambda>t. openclawRunId t = Some rid) (tasks d)"

definition createActivity ::
  "environment \<Rightarrow> string option \<Rightarrow> string option \<Rightarrow> activity_action \<Rightarrow> (string \<times> string) list
     \<Rightarrow> Database \<Rightarrow> db_error + Database" where
  "createActivity env taskId agentId act dets d =
     insert_activity
       \<lparr>activity_id = generated_activity_id env, activity_taskId = taskId,
        activity_agentId = agentId, action = act, details = dets, createdAt = clock env\<rparr> d"

definition emitTaskUpdate :: "environment \<Rightarrow> string \<Rightarrow> task_change list \<Rightarrow> OpenClawBridge \<Rightarrow> OpenClawBridge" where
  "emitTaskUpdate env taskId changes s =
     s\<lparr>ws_broadcast := ws_broadcast s
         @ [\<lparr>msg_type = task_update, msg_data = TaskUpdateMessage taskId changes,
             timestamp = clock env\<rparr>]\<rparr>"

definition emitAgentUpdate :: "environment \<Rightarrow> string \<Rightarrow> agent_change list \<Rightarrow> OpenClawBridge \<Rightarrow> OpenClawBridge" where
  "emitAgentUpdate env agentId changes s =
     s\<lparr>ws_broadcast := ws_broadcast s
         @ [\<lparr>msg_type = agent_update, msg_data = AgentUpdateMessage agentId changes,
             timestamp = clock env\<rparr>]\<rparr>"

text \<open>\<open>if (task.assignedAgentId)\<close>: the agent of a task, when the column is neither null
  nor the empty string.\<close>

definition assigned_agent :: "Task \<Rightarrow> string option" where
  "assigned_agent task =
     (case assignedAgentId task of None \<Rightarrow> None | Some a \<Rightarrow> (if a = [] then None else Some a))"

text \<open>\<open>(data.tokens as number) || 0\<close>.\<close>

definition tokens_or_zero :: "event_data \<Rightarrow> int" where
  "tokens_or_zero d = (case tokens d of None \<Rightarrow> 0 | Some n \<Rightarrow> (if n = 0 then 0 else n))"

text \<open>
  The counters are JavaScript numbers. For integers, the sum of two doubles is the exact
  sum rounded to the nearest double, ties to the even significand: exact up to \<open>2 ^ 53\<close>
  in magnitude, and above that a multiple of the power of two that leaves 53 significant
  bits. (Sums stay far below \<open>2 ^ 1024\<close>, where a double overflows.)
\<close>

function double_exponent :: "nat \<Rightarrow> nat" where
  "double_exponent n = (if n < 2 ^ 53 then 0 else Suc (double_exponent (n div 2)))"
  by pat_completeness auto
termination
  by (relation "measure id") auto

definition round_double :: "int \<Rightarrow> int" where
  "round_double x =
     (if \<bar>x\<bar> \<le> 2 ^ 53 then x
      else (let n = nat \<bar>x\<bar>;
                k = double_exponent n;
                m = n div 2 ^ k;
                r = n mod 2 ^ k;
                rounded = (if 2 * r > 2 ^ k \<or> (2 * r = 2 ^ k \<and> odd m) then m + 1 else m)
            in sgn x * int (rounded * 2 ^ k)))"

definition js_add :: "int \<Rightarrow> int \<Rightarrow> int" where
  "js_add a b = round_double (a + b)"

subsection \<open>The output accumulator\<close>

text \<open>
  The three uses of \<open>outputAccumulators\<close>. \<open>accumulate\<close> is the first three lines of
  \<open>handleAssistantDelta\<close>, returning the updated text and the map holding it;
  \<open>flushAndClear\<close> is the \<open>get\<close> and \<open>delete\<close> of \<open>handleLifecycleEnd\<close>, returning the
  text and the map without the entry;
  \<open>getOutputBuffer\<close> is the public reader. \<open>get(runId) || ''\<close> is the entry, or the empty
  string when there is none.
\<close>

definition getOutputBuffer :: "(string \<rightharpoonup> string) \<Rightarrow> string \<Rightarrow> string" where
  "getOutputBuffer acc rid = (case acc rid of None \<Rightarrow> [] | Some t \<Rightarrow> t)"

definition accumulate :: "string \<Rightarrow> string \<Rightarrow> (string \<rightharpoonup> string) \<Rightarrow> string \<times> (string \<rightharpoonup> string)" where
  "accumulate rid txt acc =
     (let current = getOutputBuffer acc rid;
          updated = current @ txt
      in (updated, acc(rid \<mapsto> updated)))"

definition flushAndClear :: "string \<Rightarrow> (string \<rightharpoonup> string) \<Rightarrow> string \<times> (string \<rightharpoonup> string)" where
  "flushAndClear rid acc = (getOutputBuffer acc rid, acc(rid := None))"

subsection \<open>The handlers\<close>

text \<open>
  Each definition below is a handler run from its first statement to its last with
  nothing else in between. The handlers are \<open>async\<close> and the listeners do not await
  them, so a handler gives way at each of its \<open>await\<close>s, and handlers dispatched
  close together overlap; the steps of \<open>handleLifecycleEnd\<close> between its awaits are
  given after the handlers.
\<close>

definition handleLifecycleStart ::
  "environment \<Rightarrow> string \<Rightarrow> string \<Rightarrow> event_data \<Rightarrow> OpenClawBridge \<Rightarrow> db_error + OpenClawBridge" where
  "handleLifecycleStart env rid sk d s =
     (case findTaskByRunId (db s) rid of
        None \<Rightarrow> Inr s
      | Some task \<Rightarrow>
          (let d1 = update_tasks (task_id task)
                      (\<lambda>t. t\<lparr>status := InProgress, startedAt := Some (clock env)\<rparr>) (db s);
               d2 = (case assigned_agent task of
                       None \<Rightarrow> d1
                     | Some a \<Rightarrow>
                         update_agents a
                           (\<lambda>g. g\<lparr>agent_state := Working, lastActiveAt := Some (clock env)\<rparr>) d1)
           in (case createActivity env (Some (task_id task)) (assignedAgentId task)
                       task_started [(''runId'', rid)] d2 of
                 Inl e \<Rightarrow> Inl e
               | Inr d3 \<Rightarrow>
                   (let d4 = insert_buffer_on_conflict_do_nothing
                               \<lparr>buffer_id = generated_run_id env, buffer_taskId = task_id task,
                                buffer_runId = rid, buffer_content = [], lastSeq = 0,
                                updatedAt = clock env\<rparr> d3;
                        s1 = emitTaskUpdate env (task_id task)
                               [status_change InProgress, startedAt_change (clock env)]
                               (s\<lparr>db := d4\<rparr>)
                    in Inr (case assigned_agent task of
                              None \<Rightarrow> s1
                            | Some a \<Rightarrow> emitAgentUpdate env a [agent_status_change Working] s1)))))"

definition handleLifecycleEnd ::
  "environment \<Rightarrow> string \<Rightarrow> string \<Rightarrow> event_data \<Rightarrow> OpenClawBridge \<Rightarrow> db_error + OpenClawBridge" where
  "handleLifecycleEnd env rid sk d s =
     (case findTaskByRunId (db s) rid of
        None \<Rightarrow> Inr s
      | Some task \<Rightarrow>
          (let (out, acc1) = flushAndClear rid (outputAccumulators s);
               d1 = update_tasks (task_id task)
                      (\<lambda>t. t\<lparr>status := Done, outcome := Some Success, task_output := Some out,
                             completedAt := Some (clock env), tokensUsed := tokens_or_zero d\<rparr>)
                      (db s);
               d2 = (case assigned_agent task of
                       None \<Rightarrow> d1
                     | Some a \<Rightarrow>
                         (case find_agent d1 a of
                            None \<Rightarrow> d1
                          | Some agent \<Rightarrow>
                              update_agents a
                                (\<lambda>g. g\<lparr>agent_state := Idle,
                                       completedTasks := js_add (completedTasks agent) 1,
                                       totalTokens := js_add (totalTokens agent) (tokens_or_zero d),
                                       lastActiveAt := Some (clock env)\<rparr>) d1))
           in (case createActivity env (Some (task_id task)) (assignedAgentId task)
                       task_completed [(''runId'', rid), (''outcome'', ''success'')] d2 of
                 Inl e \<Rightarrow> Inl e
               | Inr d3 \<Rightarrow>
                   (let s1 = emitTaskUpdate env (task_id task)
                               [status_change Done, outcome_change Success, output_change out,
                                completedAt_change (clock env)]
                               (s\<lparr>outputAccumulators := acc1, db := d3\<rparr>)
                    in Inr (case assigned_agent task of
                              None \<Rightarrow> s1
                            | Some a \<Rightarrow> emitAgentUpdate env a [agent_status_change Idle] s1)))))"

definition handleLifecycleError ::
  "environment \<Rightarrow> string \<Rightarrow> string \<Rightarrow> string \<Rightarrow> OpenClawBridge \<Rightarrow> db_error + OpenClawBridge" where
  "handleLifecycleError env rid sk err s =
     (case findTaskByRunId (db s) rid of
        None \<Rightarrow> Inr s
      | Some task \<Rightarrow>
          (let d1 = update_tasks (task_id task)
                      (\<lambda>t. t\<lparr>status := Blocked, outcome := Some Failed, task_output := Some err\<rparr>)
                      (db s);
               d2 = (case assigned_agent task of
                       None \<Rightarrow> d1
                     | Some a \<Rightarrow> update_agents a (\<lambda>g. g\<lparr>agent_state := Idle\<rparr>) d1)
           in (case createActivity env (Some (task_id task)) (assignedAgentId task)
                       task_failed [(''runId'', rid), (''error'', err)] d2 of
                 Inl e \<Rightarrow> Inl e
               | Inr d3 \<Rightarrow>
                   (let s1 = emitTaskUpdate env (task_id task)
                               [status_change Blocked, outcome_change Failed] (s\<lparr>db := d3\<rparr>)
                    in Inr (case assigned_agent task of
                              None \<Rightarrow> s1
                            | Some a \<Rightarrow> emitAgentUpdate env a [agent_status_change Idle] s1)))))"

definition handleToolCall ::
  "environment \<Rightarrow> string \<Rightarrow> string \<Rightarrow> string option \<Rightarrow> OpenClawBridge \<Rightarrow> db_error + OpenClawBridge" where
  "handleToolCall env rid tname targs s =
     (case findTaskByRunId (db s) rid of
        None \<Rightarrow> Inr s
      | Some task \<Rightarrow>
          (case createActivity env (Some (task_id task)) (assignedAgentId task) status_changed
                  [(''type'', ''tool_call''), (''toolName'', tname), (''runId'', rid)] (db s) of
             Inl e \<Rightarrow> Inl e
           | Inr d1 \<Rightarrow>
               Inr (s\<lparr>db := d1,
                      ws_broadcast := ws_broadcast s
                        @ [\<lparr>msg_type = activity,
                            msg_data = ActivityMessage (task_id task) ''tool_call''
                                         [(''toolName'', tname)],
                            timestamp = clock env\<rparr>]\<rparr>)))"

definition handleAssistantDelta ::
  "environment \<Rightarrow> string \<Rightarrow> string \<Rightarrow> OpenClawBridge \<Rightarrow> db_error + OpenClawBridge" where
  "handleAssistantDelta env rid txt s =
     (let (updated, acc1) = accumulate rid txt (outputAccumulators s);
          s1 = s\<lparr>outputAccumulators := acc1\<rparr>
      in (case findTaskByRunId (db s1) rid of
            None \<Rightarrow> Inr s1
          | Some task \<Rightarrow>
              (let d1 = update_buffers rid
                          (\<lambda>b. b\<lparr>buffer_content := updated, updatedAt := clock env\<rparr>) (db s1)
               in Inr (s1\<lparr>db := d1,
                          ws_broadcast := ws_broadcast s1
                            @ [\<lparr>msg_type = output_delta,
                                msg_data = OutputDeltaMessage (task_id task) rid txt updated,
                                timestamp = clock env\<rparr>]\<rparr>))))"

definition handleAssistantFinal ::
  "environment \<Rightarrow> string \<Rightarrow> string \<Rightarrow> OpenClawBridge \<Rightarrow> db_error + OpenClawBridge" where
  "handleAssistantFinal env rid txt s = Inr s"

text \<open>The events the bridge listens to (\<open>setupEventListeners\<close>), each with the arguments
  its listener passes to the handler.\<close>

datatype bridge_event =
    lifecycle_start string string event_data
  | lifecycle_end string string event_data
  | lifecycle_error string string string
  | tool_call string string "string option"
  | assistant_delta string string
  | assistant_final string string

fun bridge_step :: "environment \<Rightarrow> bridge_event \<Rightarrow> OpenClawBridge \<Rightarrow> db_error + OpenClawBridge" where
  "bridge_step env (lifecycle_start rid sk d) s = handleLifecycleStart env rid sk d s"
| "bridge_step env (lifecycle_end rid sk d) s = handleLifecycleEnd env rid sk d s"
| "bridge_step env (lifecycle_error rid sk err) s = handleLifecycleError env rid sk err s"
| "bridge_step env (tool_call rid tname targs) s = handleToolCall env rid tname targs s"
| "bridge_step env (assistant_delta rid txt) s = handleAssistantDelta env rid txt s"
| "bridge_step env (assistant_final rid txt) s = handleAssistantFinal env rid txt s"

text \<open>
  \<open>bridge_run\<close> is the schedule in which every handler has returned before the next
  event is dispatched; the first failure ends the run.
\<close>

fun bridge_run :: "(environment \<times> bridge_event) list \<Rightarrow> OpenClawBridge \<Rightarrow> db_error + OpenClawBridge" where
  "bridge_run [] s = Inr s"
| "bridge_run ((env, ev) # rest) s =
     (case bridge_step env ev s of Inl e \<Rightarrow> Inl e | Inr s1 \<Rightarrow> bridge_run rest s1)"

fun event_runId :: "bridge_event \<Rightarrow> string" where
  "event_runId (lifecycle_start rid _ _) = rid"
| "event_runId (lifecycle_end rid _ _) = rid"
| "event_runId (lifecycle_error rid _ _) = rid"
| "event_runId (tool_call rid _ _) = rid"
| "event_runId (assistant_delta rid _) = rid"
| "event_runId (assistant_final rid _) = rid"

subsection \<open>The steps of \<open>handleLifecycleEnd\<close>\<close>

text \<open>
  The places where \<open>handleLifecycleEnd\<close> awaits, each with what the handler holds
  there: nothing before the task lookup; the task and the flushed text before the task
  update, the agent lookup and the insert of the audit record; and the agent row it has
  read before the agent update.
\<close>

datatype end_await =
    await_find_task
  | await_update_task Task string
  | await_find_agent Task string
  | await_update_agent Task string Agent
  | await_create_activity Task string

text \<open>
  One step of the handler: the database operation it awaits, and the statements that
  follow up to the next \<open>await\<close> or the end. The result is the new state and the place
  the handler waits at next, \<open>None\<close> once it has returned.
\<close>

fun end_step ::
  "environment \<Rightarrow> string \<Rightarrow> event_data \<Rightarrow> end_await \<Rightarrow> OpenClawBridge
     \<Rightarrow> db_error + OpenClawBridge \<times> end_await option" where
  "end_step env rid d await_find_task s =
     (case findTaskByRunId (db s) rid of
        None \<Rightarrow> Inr (s, None)
      | Some task \<Rightarrow>
          (let (out, acc1) = flushAndClear rid (outputAccumulators s)
           in Inr (s\<lparr>outputAccumulators := acc1\<rparr>, Some (await_update_task task out))))"
| "end_step env rid d (await_update_task task out) s =
     (let d1 = update_tasks (task_id task)
                 (\<lambda>t. t\<lparr>status := Done, outcome := Some Success, task_output := Some out,
                        completedAt := Some (clock env), tokensUsed := tokens_or_zero d\<rparr>)
                 (db s)
      in Inr (s\<lparr>db := d1\<rparr>,
              (case assigned_agent task of
                 None \<Rightarrow> Some (await_create_activity task out)
               | Some a \<Rightarrow> Some (await_find_agent task out))))"
| "end_step env rid d (await_find_agent task out) s =
     (case assigned_agent task of
        None \<Rightarrow> Inr (s, Some (await_create_activity task out))
      | Some a \<Rightarrow>
          (case find_agent (db s) a of
             None \<Rightarrow> Inr (s, Some (await_create_activity task out))
           | Some agent \<Rightarrow> Inr (s, Some (await_update_agent task out agent))))"
| "end_step env rid d (await_update_agent task out agent) s =
     (case assigned_agent task of
        None \<Rightarrow> Inr (s, Some (await_create_activity task out))
      | Some a \<Rightarrow>
          Inr (s\<lparr>db := update_agents a
                        (\<lambda>g. g\<lparr>agent_state := Idle,
                               completedTasks := js_add (completedTasks agent) 1,
                               totalTokens := js_add (totalTokens agent) (tokens_or_zero d),
                               lastActiveAt := Some (clock env)\<rparr>) (db s)\<rparr>,
               Some (await_create_activity task out)))"
| "end_step env rid d (await_create_activity task out) s =
     (case createActivity env (Some (task_id task)) (assignedAgentId task)
             task_completed [(''runId'', rid), (''outcome'', ''success'')] (db s) of
        Inl e \<Rightarrow> Inl e
      | Inr d3 \<Rightarrow>
          (let s1 = emitTaskUpdate env (task_id task)
                      [status_change Done, outcome_change Success, output_change out,
                       completedAt_change (clock env)]
                      (s\<lparr>db := d3\<rparr>)
           in Inr (case assigned_agent task of
                     None \<Rightarrow> s1
                   | Some a \<Rightarrow> emitAgentUpdate env a [agent_status_change Idle] s1,
                   None)))"

text \<open>
  A call of \<open>handleLifecycleEnd\<close> in flight: its arguments, what it took from outside,
  and the place it waits at. A schedule names, step by step, which of the calls in
  flight runs its next step; a call that has returned, or a number that names no call,
  leaves everything as it is. A failed insert ends the run with the error.
\<close>

record end_call =
  call_env :: environment
  call_runId :: string
  call_data :: event_data
  waits_at :: "end_await option"

definition dispatched :: "environment \<Rightarrow> string \<Rightarrow> event_data \<Rightarrow> end_call" where
  "dispatched env rid d =
     \<lparr>call_env = env, call_runId = rid, call_data = d, waits_at = Some await_find_task\<rparr>"

definition advance ::
  "nat \<Rightarrow> OpenClawBridge \<times> end_call list \<Rightarrow> db_error + OpenClawBridge \<times> end_call list" where
  "advance i st =
     (let (s, calls) = st
      in (if i < length calls
          then (case waits_at (calls ! i) of
                  None \<Rightarrow> Inr (s, calls)
                | Some place \<Rightarrow>
                    (case end_step (call_env (calls ! i)) (call_runId (calls ! i))
                            (call_data (calls ! i)) place s of
                       Inl e \<Rightarrow> Inl e
                     | Inr (s1, next) \<Rightarrow> Inr (s1, calls[i := (calls ! i)\<lparr>waits_at := next\<rparr>])))
          else Inr (s, calls)))"

fun run_schedule ::
  "nat list \<Rightarrow> OpenClawBridge \<times> end_call list \<Rightarrow> db_error + OpenClawBridge \<times> end_call list" where
  "run_schedule [] st = Inr st"
| "run_schedule (i # rest) st =
     (case advance i st of Inl e \<Rightarrow> Inl e | Inr st1 \<Rightarrow> run_schedule rest st1)"

section \<open>Notions used in the properties\<close>



definition event_payload :: "json \<Rightarrow> json" where
  "event_payload event = property event ''payload''"




definition event_data :: "json \<Rightarrow> json" where
  "event_data event = property (event_payload event) ''data''"







text \<open>Whether the hub holds a client for the socket that is subscribed to the task.\<close>

definition wants :: "hub \<Rightarrow> string \<Rightarrow> sock \<Rightarrow> bool" where
  "wants h t w = (case map_of (clients h) w of None \<Rightarrow> False | Some c \<Rightarrow> t \<in> subscribedTasks c)"

text \<open>A message is task-scoped for task \<open>t\<close> when the listener on \<open>ws:broadcast\<close> passes
  it to \<open>broadcastToTask t\<close>.\<close>

definition task_scoped :: "WSMessage \<Rightarrow> string \<Rightarrow> bool" where
  "task_scoped m t =
     ((msg_type m = task_update \<or> msg_type m = output_delta)
      \<and> data_taskId (msg_data m) = Some t \<and> t \<noteq> [])"

text \<open>A socket is stale when the hub holds no client for it or holds one that has not
  answered since it was last pinged.\<close>

definition stale :: "hub \<Rightarrow> sock \<Rightarrow> bool" where
  "stale h w = (case map_of (clients h) w of None \<Rightarrow> True | Some c \<Rightarrow> \<not> isAlive c)"

text \<open>A hub with one open connection, socket 1, subscribed to task \<open>T1\<close>, and a task
  update for \<open>T1\<close>.\<close>

definition hub_example :: hub where
  "hub_example = hub_run [Connection 0 1, ClientMessage 1 1 (subscribe_task ''T1'')] new_hub"

definition task_update_example :: WSMessage where
  "task_update_example =
     \<lparr>msg_type = task_update, msg_data = TaskUpdateMessage ''T1'' [status_change Done], timestamp = 2\<rparr>"

text \<open>The audit record \<open>handleLifecycleEnd\<close> inserts, and the agent row it writes back.\<close>

definition completed_activity :: "environment \<Rightarrow> Task \<Rightarrow> string \<Rightarrow> Activity" where
  "completed_activity env task rid =
     \<lparr>activity_id = generated_activity_id env, activity_taskId = Some (task_id task),
      activity_agentId = assignedAgentId task, action = task_completed,
      details = [(''runId'', rid), (''outcome'', ''success'')], createdAt = clock env\<rparr>"

definition credited :: "environment \<Rightarrow> event_data \<Rightarrow> Agent \<Rightarrow> Agent" where
  "credited env d agent =
     agent\<lparr>agent_state := Idle, completedTasks := js_add (completedTasks agent) 1,
           totalTokens := js_add (totalTokens agent) (tokens_or_zero d),
           lastActiveAt := Some (clock env)\<rparr>"





text \<open>What is read off the result of handling events: an agent's counters
  (\<open>completedTasks\<close>, \<open>totalTokens\<close>), the actions of the audit records, the task
  statuses, the accumulator entry of a run, the runs of the output-buffer rows, and the
  text \<open>flushAndClear\<close> returns.\<close>

definition agent_counters :: "db_error + OpenClawBridge \<Rightarrow> string \<Rightarrow> (int \<times> int) option" where
  "agent_counters r a =
     (case r of
        Inl _ \<Rightarrow> None
      | Inr s \<Rightarrow> map_option (\<lambda>g. (completedTasks g, totalTokens g)) (find_agent (db s) a))"

definition audit_actions :: "db_error + OpenClawBridge \<Rightarrow> activity_action list" where
  "audit_actions r = (case r of Inl _ \<Rightarrow> [] | Inr s \<Rightarrow> map action (activities (db s)))"

definition task_statuses :: "db_error + OpenClawBridge \<Rightarrow> task_status list" where
  "task_statuses r = (case r of Inl _ \<Rightarrow> [] | Inr s \<Rightarrow> map status (tasks (db s)))"

definition accumulator_entry :: "string \<Rightarrow> db_error + OpenClawBridge \<Rightarrow> string option" where
  "accumulator_entry r res = (case res of Inl _ \<Rightarrow> None | Inr s \<Rightarrow> outputAccumulators s r)"

definition buffer_runs :: "db_error + OpenClawBridge \<Rightarrow> string list" where
  "buffer_runs res = (case res of Inl _ \<Rightarrow> [] | Inr s \<Rightarrow> map buffer_runId (outputBuffers (db s)))"


text \<open>The bridge a schedule of calls of \<open>handleLifecycleEnd\<close> leaves, and whether every
  call has returned.\<close>

definition state_after ::
  "db_error + OpenClawBridge \<times> end_call list \<Rightarrow> db_error + OpenClawBridge" where
  "state_after r = (case r of Inl e \<Rightarrow> Inl e | Inr (s, calls) \<Rightarrow> Inr s)"

definition all_returned :: "db_error + OpenClawBridge \<times> end_call list \<Rightarrow> bool" where
  "all_returned r =
     (case r of Inl e \<Rightarrow> False | Inr (s, calls) \<Rightarrow> list_all (\<lambda>c. waits_at c = None) calls)"

text \<open>
  An example store: task \<open>t1\<close>, assigned to agent \<open>a1\<close> and linked to run \<open>r1\<close>; the same
  store after one \<open>LifecycleEnd\<close> of 42 tokens has been handled; environments with
  distinct generated identifiers; the \<open>data\<close> of a start and of an end event.
\<close>

definition task_example :: Task where
  "task_example = \<lparr>task_id = ''t1'', status = Assigned, assignedAgentId = Some ''a1'',
     openclawRunId = Some ''r1'', startedAt = None, completedAt = None, outcome = None,
     task_output = None, tokensUsed = 0\<rparr>"

definition agent_example :: Agent where
  "agent_example = \<lparr>agent_id = ''a1'', agent_state = Working, completedTasks = 0,
     totalTokens = 0, lastActiveAt = None\<rparr>"

definition bridge_example :: OpenClawBridge where
  "bridge_example =
     \<lparr>outputAccumulators = Map.empty,
      db = \<lparr>tasks = [task_example], agents = [agent_example], activities = [], outputBuffers = []\<rparr>,
      ws_broadcast = []\<rparr>"

definition env_example :: "nat \<Rightarrow> string \<Rightarrow> environment" where
  "env_example n tag = \<lparr>clock = n, generated_run_id = ''run_'' @ tag,
                         generated_activity_id = ''act_'' @ tag\<rparr>"

definition end_data_example :: event_data where
  "end_data_example = \<lparr>phase = Some ''end'', error_text = None, toolName = None, args = None,
     delta_text = None, tokens = Some 42\<rparr>"

definition start_data_example :: event_data where
  "start_data_example = \<lparr>phase = Some ''start'', error_text = None, toolName = None, args = None,
     delta_text = None, tokens = None\<rparr>"

definition bridge_done_example :: OpenClawBridge where
  "bridge_done_example =
     \<lparr>outputAccumulators = Map.empty,
      db = \<lparr>tasks = [task_example\<lparr>status := Done, outcome := Some Success, task_output := Some [],
                                    completedAt := Some 1, tokensUsed := 42\<rparr>],
            agents = [agent_example\<lparr>agent_state := Idle, completedTasks := 1, totalTokens := 42,
                                     lastActiveAt := Some 1\<rparr>],
            activities = [completed_activity (env_example 1 ''x'') task_example ''r1''],
            outputBuffers = []\<rparr>,
      ws_broadcast = []\<rparr>"

section \<open>Properties of the client\<close>










text \<open>
  C8 as stated fails: on a successful connect the \<open>open\<close> callback signals \<open>connected\<close>
  first, so listeners observe it before any subscription frame has been sent.
\<close>

theorem connected_before_handshake_counterexample:
  "\<not> handshake_before_connected
       (snd (client_step SocketOpen (newClient\<lparr>ws := Some CONNECTING, isConnecting := True\<rparr>)))"
  by (simp add: handshake_before_connected_def handshake_def onOpen_def socket_state_def
        newClient_def Let_def)

text \<open>
  C8, amended. On every successful connect of a client that holds a socket, the effects
  are, in this order: \<open>connected\<close> is signalled to the listeners, then the fixed
  subscription frame for the event classes agent, chat, session, heartbeat is sent, then
  the promise of \<open>connect\<close> resolves.
\<close>

theorem connected_then_handshake:
  "ws c \<noteq> None \<Longrightarrow>
   snd (client_step SocketOpen c) = [Emit connected, WsSend handshake, Resolve]
   \<and> first_index (Emit connected) (snd (client_step SocketOpen c)) = Some 0
   \<and> first_index (WsSend handshake) (snd (client_step SocketOpen c)) = Some 1
   \<and> handshake = Subscribe [''agent'', ''chat'', ''session'', ''heartbeat'']"
  by (auto simp: handshake_def onOpen_def socket_state_def Let_def split: option.splits)

theorem connected_then_handshake_witness:
  "ws (newClient\<lparr>ws := Some CONNECTING, isConnecting := True\<rparr>) \<noteq> None
   \<and> snd (client_step SocketOpen (newClient\<lparr>ws := Some CONNECTING, isConnecting := True\<rparr>))
       = [Emit connected, WsSend (Subscribe [''agent'', ''chat'', ''session'', ''heartbeat'']), Resolve]"
proof -
  have h: "ws (newClient\<lparr>ws := Some CONNECTING, isConnecting := True\<rparr>) \<noteq> None" by simp
  show ?thesis using h connected_then_handshake [OF h] by simp
qed

section \<open>Properties of the normalizer\<close>


lemma property_nullish [simp]: "nullish v \<Longrightarrow> property v k = JUndefined"
  by (auto simp: nullish_def property_def)

lemma string_not_nullish [simp]: "\<not> nullish (JString s)"
  by (simp add: nullish_def)


lemma is_typed_typed [simp]: "is_typed (typed name arguments) = (name \<in> set typed_event_names)"
  by (simp add: typed_def)











section \<open>Properties of the broadcast hub\<close>

lemma send_frame [simp]:
  "clients (send w m h) = clients h" "readyState (send w m h) = readyState h"
  "pings (send w m h) = pings h"
  by (simp_all add: send_def)

lemma send_if_subscribed_frame [simp]:
  "clients (send_if_subscribed t m w h) = clients h"
  "readyState (send_if_subscribed t m w h) = readyState h"
  by (simp_all add: send_if_subscribed_def split: option.splits)

lemma fold_send_frame [simp]:
  "clients (fold (\<lambda>w. send w m) ks h) = clients h"
  "readyState (fold (\<lambda>w. send w m) ks h) = readyState h"
  by (induction ks arbitrary: h) simp_all

lemma fold_send_if_subscribed_frame [simp]:
  "clients (fold (send_if_subscribed t m) ks h) = clients h"
  "readyState (fold (send_if_subscribed t m) ks h) = readyState h"
  by (induction ks arbitrary: h) simp_all

lemma fold_send_outbox:
  "outbox (fold (\<lambda>w. send w m) ks h) w =
     outbox h w @ replicate (if readyState h w = OPEN then count_list ks w else 0) m"
proof (induction ks arbitrary: h)
  case Nil
  then show ?case by simp
next
  case (Cons k ks)
  show ?case
    by (simp add: Cons.IH) (simp add: send_def replicate_app_Cons_same)
qed

lemma fold_send_if_subscribed_outbox:
  "outbox (fold (send_if_subscribed t m) ks h) w =
     outbox h w @ replicate (if readyState h w = OPEN \<and> wants h t w then count_list ks w else 0) m"
proof (induction ks arbitrary: h)
  case Nil
  then show ?case by simp
next
  case (Cons k ks)
  have w: "wants (send_if_subscribed t m k h) t w = wants h t w"
    by (simp add: wants_def)
  show ?case
    by (simp add: Cons.IH w)
       (simp add: send_if_subscribed_def send_def wants_def replicate_app_Cons_same
          split: option.splits)
qed

lemma count_keys_registered:
  "distinct (map fst al) \<Longrightarrow> map_of al w = Some c \<Longrightarrow> count_list (map fst al) w = 1"
  by (induction al) (auto simp: count_list_0_iff dest: map_of_SomeD weak_map_of_SomeI split: if_splits)

lemma count_keys_unregistered:
  "map_of al w = None \<Longrightarrow> count_list (map fst al) w = 0"
  by (simp add: count_list_0_iff map_of_eq_None_iff)

lemma broadcast_outbox:
  "outbox (broadcast m h) w =
     outbox h w @ replicate (if readyState h w = OPEN then count_list (map fst (clients h)) w else 0) m"
  by (simp add: broadcast_def forEach_def fold_send_outbox)

lemma broadcastToTask_outbox:
  "outbox (broadcastToTask t m h) w =
     outbox h w @ replicate (if readyState h w = OPEN \<and> wants h t w
                             then count_list (map fst (clients h)) w else 0) m"
  by (simp add: broadcastToTask_def forEach_def fold_send_if_subscribed_outbox)

lemma broadcastToTask_frame [simp]:
  "clients (broadcastToTask t m h) = clients h" "readyState (broadcastToTask t m h) = readyState h"
  by (simp_all add: broadcastToTask_def forEach_def)

lemma hub_example_eq:
  "hub_example = \<lparr>clients = [(1, \<lparr>subscribedTasks = {''T1''}, isAlive = True\<rparr>)],
     readyState = (\<lambda>_. CLOSED)(1 := OPEN),
     outbox = (\<lambda>_. [])(1 := [\<lparr>msg_type = stats_update, msg_data = ConnectedData, timestamp = 0\<rparr>]),
     pings = (\<lambda>_. 0)\<rparr>"
  by (simp add: hub_example_def hub_run_def new_hub_def on_connection_def send_def update_client_def)

lemma hub_example_distinct: "distinct (map fst (clients hub_example))"
  by (simp add: hub_example_eq)

lemma hub_example_client:
  "map_of (clients hub_example) 1 = Some \<lparr>subscribedTasks = {''T1''}, isAlive = True\<rparr>"
  by (simp add: hub_example_eq)

lemma hub_example_open: "readyState hub_example 1 = OPEN"
  by (simp add: hub_example_eq)

lemma broadcast_frame [simp]: "clients (broadcast m h) = clients h"
  by (simp add: broadcast_def forEach_def)

lemma on_ws_broadcast_clients [simp]: "clients (on_ws_broadcast m h) = clients h"
  by (simp add: on_ws_broadcast_def Let_def split: option.splits)

text \<open>No event gives the map a second entry for a socket: every state the hub reaches
  from its start holds each socket at most once.\<close>

lemma fold_send_pings [simp]: "pings (fold (\<lambda>w. send w m) ks h) = pings h"
  by (induction ks arbitrary: h) simp_all

lemma heartbeat_client_keys:
  "distinct (map fst (clients h)) \<Longrightarrow> distinct (map fst (clients (heartbeat_client w h)))"
  by (auto simp: heartbeat_client_def distinct_update distinct_delete split: option.splits)

lemma fold_heartbeat_keys:
  "distinct (map fst (clients h)) \<Longrightarrow> distinct (map fst (clients (fold heartbeat_client ks h)))"
  by (induction ks arbitrary: h) (simp_all add: heartbeat_client_keys)

lemma hub_step_keys:
  "distinct (map fst (clients h)) \<Longrightarrow> distinct (map fst (clients (hub_step e h)))"
proof (cases e)
  case (ClientMessage now w m)
  assume "distinct (map fst (clients h))"
  then show ?thesis using ClientMessage
    by (cases m) (auto simp: update_client_def distinct_update split: option.splits)
next
  case Heartbeat
  assume "distinct (map fst (clients h))"
  then show ?thesis using Heartbeat by (simp add: heartbeat_def forEach_def fold_heartbeat_keys)
qed (auto simp: on_connection_def on_pong_def on_close_def distinct_update distinct_delete
       split: option.splits)

lemma hub_run_keys:
  "distinct (map fst (clients h)) \<Longrightarrow> distinct (map fst (clients (hub_run evs h)))"
  unfolding hub_run_def by (induction evs arbitrary: h) (simp_all add: hub_step_keys)

lemma reachable_hub_keys: "distinct (map fst (clients (hub_run evs new_hub)))"
  by (rule hub_run_keys) (simp add: new_hub_def)

text \<open>
  C2 as stated fails: a connection subscribed to task \<open>T1\<close> receives a task update for
  \<open>T1\<close> twice, once from \<open>broadcastToTask\<close> and once from \<open>broadcast\<close>.
\<close>

theorem task_message_duplicated_counterexample:
  "\<not> count_list
       (outbox (hub_step (BridgeBroadcast task_update_example) hub_example) 1)
       task_update_example \<le> 1"
proof -
  have "outbox (hub_step (BridgeBroadcast task_update_example) hub_example) 1
        = [\<lparr>msg_type = stats_update, msg_data = ConnectedData, timestamp = 0\<rparr>,
           task_update_example, task_update_example]"
    by (simp add: hub_example_eq on_ws_broadcast_def broadcast_def broadcastToTask_def
          forEach_def send_if_subscribed_def send_def task_update_example_def Let_def)
  then show ?thesis by (simp add: task_update_example_def)
qed

text \<open>
  C2, amended. In a hub whose map holds each socket once, a registered connection whose
  socket is open receives from \<open>broadcastToTask t\<close> one copy if it is subscribed to \<open>t\<close>
  and none otherwise (so a connection subscribed only to \<open>T1\<close> receives nothing sent to
  \<open>T2\<close>); from \<open>broadcast\<close> exactly one copy, subscribed or not; and from the listener
  on \<open>ws:broadcast\<close> two copies of a task update or output delta whose task it is
  subscribed to, and one copy of every other message. A connection whose socket is not
  open receives nothing.
\<close>

theorem fan_out_copies:
  assumes "distinct (map fst (clients h))" "map_of (clients h) w = Some c"
  shows "delivered h (broadcastToTask t m h) w
           = (if readyState h w = OPEN \<and> t \<in> subscribedTasks c then [m] else [])
       \<and> (subscribedTasks c = {t1} \<and> t2 \<noteq> t1 \<longrightarrow> delivered h (broadcastToTask t2 m h) w = [])
       \<and> delivered h (broadcast m h) w = (if readyState h w = OPEN then [m] else [])
       \<and> delivered h (on_ws_broadcast m h) w =
           (if readyState h w = OPEN
            then (if \<exists>t. task_scoped m t \<and> t \<in> subscribedTasks c then [m, m] else [m])
            else [])"
proof -
  have n: "count_list (map fst (clients h)) w = 1"
    using assms(1,2) by (rule count_keys_registered)
  have wn: "wants h t w = (t \<in> subscribedTasks c)" for t
    using assms(2) by (simp add: wants_def)
  have a: "delivered h (broadcastToTask t m h) w
           = (if readyState h w = OPEN \<and> t \<in> subscribedTasks c then [m] else [])" for t
    using n by (simp add: delivered_def broadcastToTask_outbox wn)
  have b: "subscribedTasks c = {t1} \<and> t2 \<noteq> t1 \<longrightarrow> delivered h (broadcastToTask t2 m h) w = []"
    using a [of t2] by auto
  have c: "delivered h (broadcast m h) w = (if readyState h w = OPEN then [m] else [])"
    using n by (simp add: delivered_def broadcast_outbox)
  have d: "delivered h (on_ws_broadcast m h) w =
           (if readyState h w = OPEN
            then (if \<exists>t. task_scoped m t \<and> t \<in> subscribedTasks c then [m, m] else [m])
            else [])"
    using n
    by (auto simp: delivered_def on_ws_broadcast_def Let_def broadcast_outbox
          broadcastToTask_outbox wn task_scoped_def split: option.splits)
  show ?thesis using a b c d by blast
qed

theorem fan_out_copies_witness:
  "delivered hub_example (broadcastToTask ''T2'' task_update_example hub_example) 1 = []
   \<and> delivered hub_example (broadcast task_update_example hub_example) 1 = [task_update_example]
   \<and> delivered hub_example (on_ws_broadcast task_update_example hub_example) 1
       = [task_update_example, task_update_example]"
proof -
  note th = fan_out_copies [OF hub_example_distinct hub_example_client,
      of "''T2''" task_update_example "''T1''" "''T2''"]
  have ts: "\<exists>t. task_scoped task_update_example t \<and> t \<in> {''T1''}"
    by (simp add: task_scoped_def task_update_example_def)
  show ?thesis using th ts hub_example_open by simp
qed

subsection \<open>Heartbeat\<close>

lemma heartbeat_client_other:
  "k \<noteq> w \<Longrightarrow> map_of (clients (heartbeat_client k h)) w = map_of (clients h) w"
  by (simp add: heartbeat_client_def update_conv' delete_conv' split: option.splits)

lemma heartbeat_client_absent:
  "map_of (clients h) w = None \<Longrightarrow> map_of (clients (heartbeat_client k h)) w = None"
  by (cases "k = w") (simp_all add: heartbeat_client_other, simp add: heartbeat_client_def)

lemma heartbeat_client_evicts:
  "stale h w \<Longrightarrow> map_of (clients (heartbeat_client w h)) w = None"
  by (auto simp: stale_def heartbeat_client_def delete_conv' split: option.splits)

lemma heartbeat_client_stale:
  "stale (heartbeat_client w h) w"
  by (simp add: stale_def heartbeat_client_def update_conv' delete_conv' split: option.splits)

lemma heartbeat_client_keeps_stale:
  "stale h w \<Longrightarrow> stale (heartbeat_client k h) w"
  by (cases "k = w") (simp_all add: heartbeat_client_stale, simp add: stale_def heartbeat_client_other)

lemma fold_heartbeat_absent:
  "map_of (clients h) w = None \<Longrightarrow> map_of (clients (fold heartbeat_client ks h)) w = None"
  by (induction ks arbitrary: h) (simp_all add: heartbeat_client_absent)

lemma fold_heartbeat_keeps_stale:
  "stale h w \<Longrightarrow> stale (fold heartbeat_client ks h) w"
  by (induction ks arbitrary: h) (simp_all add: heartbeat_client_keeps_stale)

lemma fold_heartbeat_stale:
  "w \<in> set ks \<Longrightarrow> stale (fold heartbeat_client ks h) w"
proof (induction ks arbitrary: h)
  case Nil
  then show ?case by simp
next
  case (Cons k ks)
  show ?case
  proof (cases "k = w")
    case True
    then show ?thesis by (simp add: fold_heartbeat_keeps_stale heartbeat_client_stale)
  next
    case False
    then show ?thesis using Cons by simp
  qed
qed

lemma fold_heartbeat_evicts:
  "stale h w \<Longrightarrow> w \<in> set ks \<Longrightarrow> map_of (clients (fold heartbeat_client ks h)) w = None"
proof (induction ks arbitrary: h)
  case Nil
  then show ?case by simp
next
  case (Cons k ks)
  show ?case
  proof (cases "k = w")
    case True
    then show ?thesis
      using Cons.prems(1) by (simp add: fold_heartbeat_absent heartbeat_client_evicts)
  next
    case False
    then show ?thesis
      using Cons by (simp add: heartbeat_client_keeps_stale)
  qed
qed

lemma heartbeat_stale: "stale (heartbeat h) w"
proof (cases "map_of (clients h) w")
  case None
  then show ?thesis
    by (simp add: heartbeat_def forEach_def stale_def fold_heartbeat_absent)
next
  case (Some c)
  then have "w \<in> set (map fst (clients h))"
    by (metis domI dom_map_of_conv_image_fst set_map)
  then show ?thesis
    by (simp only: heartbeat_def forEach_def fold_heartbeat_stale)
qed

lemma heartbeat_evicts: "stale h w \<Longrightarrow> map_of (clients (heartbeat h)) w = None"
proof (cases "map_of (clients h) w")
  case None
  then show ?thesis
    by (simp add: heartbeat_def forEach_def fold_heartbeat_absent)
next
  case (Some c)
  assume st: "stale h w"
  from Some have "w \<in> set (map fst (clients h))"
    by (metis domI dom_map_of_conv_image_fst set_map)
  then show ?thesis
    using st by (simp only: heartbeat_def forEach_def fold_heartbeat_evicts)
qed

lemma send_stale [simp]: "stale (send k m h) w = stale h w"
  by (simp add: stale_def)

lemma hub_step_keeps_stale:
  assumes "stale h w" "e \<noteq> Pong w" "\<And>now. e \<noteq> Connection now w"
  shows "stale (hub_step e h) w"
proof (cases e)
  case (Connection now k)
  then have "k \<noteq> w" using assms(3) by auto
  then show ?thesis using assms(1) Connection
    by (simp add: on_connection_def stale_def update_conv')
next
  case (Pong k)
  then have "k \<noteq> w" using assms(2) by auto
  then show ?thesis using assms(1) Pong
    by (simp add: on_pong_def stale_def update_conv' split: option.splits)
next
  case (ClientMessage now k m)
  then show ?thesis using assms(1)
    by (cases m) (auto simp: update_client_def stale_def update_conv' split: option.splits)
next
  case (Close k)
  then show ?thesis using assms(1)
    by (simp add: on_close_def stale_def delete_conv')
next
  case Heartbeat
  then show ?thesis by (simp add: heartbeat_stale)
next
  case (BridgeBroadcast m)
  then show ?thesis using assms(1) by (simp add: stale_def)
qed

lemma hub_run_keeps_stale:
  "stale h w \<Longrightarrow> Pong w \<notin> set evs \<Longrightarrow> (\<And>now. Connection now w \<notin> set evs) \<Longrightarrow>
   stale (hub_run evs h) w"
proof (induction evs arbitrary: h)
  case Nil
  then show ?case by (simp add: hub_run_def)
next
  case (Cons e es)
  have "stale (hub_step e h) w"
    using Cons.prems by (intro hub_step_keeps_stale) auto
  moreover have "Pong w \<notin> set es" "\<And>now. Connection now w \<notin> set es"
    using Cons.prems by auto
  ultimately have "stale (hub_run es (hub_step e h)) w"
    by (rule Cons.IH)
  then show ?case by (simp add: hub_run_def)
qed

text \<open>
  C9. Take any hub and any socket. After a heartbeat, any events among which the socket
  does not answer with a pong (more heartbeats included; a socket connects only once),
  and another heartbeat, the hub holds no client for the socket, hence no task
  subscription of it: the subscriptions live in the client object the map held. A
  connection that misses two pongs in a row is such a socket; it is evicted by the
  heartbeat that follows the first ping it left unanswered.
\<close>

theorem heartbeat_eviction:
  assumes "Pong w \<notin> set evs" "\<forall>now. Connection now w \<notin> set evs"
  shows "\<not> registered (hub_step Heartbeat (hub_run evs (hub_step Heartbeat h))) w
         \<and> subscriptions (hub_step Heartbeat (hub_run evs (hub_step Heartbeat h))) w = {}"
proof -
  have "stale (hub_step Heartbeat h) w" by (simp add: heartbeat_stale)
  then have "stale (hub_run evs (hub_step Heartbeat h)) w"
    using assms by (intro hub_run_keeps_stale) auto
  then have "map_of (clients (hub_step Heartbeat (hub_run evs (hub_step Heartbeat h)))) w = None"
    by (simp add: heartbeat_evicts)
  then show ?thesis by (simp add: registered_def subscriptions_def)
qed

theorem heartbeat_eviction_witness:
  "registered hub_example 1 \<and> subscriptions hub_example 1 = {''T1''}
   \<and> Pong 1 \<notin> set [ClientMessage 40 1 ping, Connection 45 2]
   \<and> \<not> registered (hub_step Heartbeat (hub_run [ClientMessage 40 1 ping, Connection 45 2]
          (hub_step Heartbeat hub_example))) 1
   \<and> subscriptions (hub_step Heartbeat (hub_run [ClientMessage 40 1 ping, Connection 45 2]
          (hub_step Heartbeat hub_example))) 1 = {}"
proof -
  have a: "Pong 1 \<notin> set [ClientMessage 40 1 ping, Connection 45 2]" by simp
  have b: "\<forall>now. Connection now 1 \<notin> set [ClientMessage 40 1 ping, Connection 45 2]" by simp
  have c: "registered hub_example 1 \<and> subscriptions hub_example 1 = {''T1''}"
    by (simp add: hub_example_eq registered_def subscriptions_def)
  show ?thesis using a c heartbeat_eviction [OF a b, of hub_example] by simp
qed

section \<open>Properties of the bridge\<close>

lemmas example_defs = bridge_example_def task_example_def agent_example_def env_example_def

lemmas handler_defs = handleLifecycleStart_def handleLifecycleEnd_def handleLifecycleError_def
  handleToolCall_def handleAssistantDelta_def handleAssistantFinal_def
  findTaskByRunId_def find_agent_def update_tasks_def update_agents_def update_buffers_def
  createActivity_def insert_activity_def insert_buffer_on_conflict_do_nothing_def references_def
  emitTaskUpdate_def emitAgentUpdate_def assigned_agent_def tokens_or_zero_def
  getOutputBuffer_def accumulate_def flushAndClear_def js_add_def round_double_def

lemma find_map_key:
  "(\<And>x. key (f x) = key x) \<Longrightarrow>
   find (\<lambda>x. key x = k) (map (\<lambda>x. if key x = k then f x else x) xs)
     = map_option f (find (\<lambda>x. key x = k) xs)"
  by (induction xs) auto

lemma insert_activity_Inr:
  "insert_activity row d = Inr d' \<Longrightarrow> d' = d\<lparr>activities := activities d @ [row]\<rparr>"
  by (auto simp: insert_activity_def split: if_splits)

lemma createActivity_Inr:
  "createActivity env tid aid act dets d = Inr d' \<Longrightarrow>
   d' = d\<lparr>activities := activities d
           @ [\<lparr>activity_id = generated_activity_id env, activity_taskId = tid,
               activity_agentId = aid, action = act, details = dets, createdAt = clock env\<rparr>]\<rparr>"
  by (simp add: createActivity_def insert_activity_Inr)

lemma find_agent_update_tasks [simp]: "find_agent (update_tasks tid f d) a = find_agent d a"
  by (simp add: find_agent_def update_tasks_def)

lemma find_agent_update_agents:
  "(\<And>g. agent_id (f g) = agent_id g) \<Longrightarrow>
   find_agent (update_agents a f d) a = map_option f (find_agent d a)"
  by (simp add: find_agent_def update_agents_def find_map_key [where key = agent_id])

lemma update_agent_step:
  assumes a: "assigned_agent task = Some a" and g: "find_agent (db s) a \<noteq> None"
  shows "\<exists>s1. end_step env rid d (await_update_agent task out agent) s
                = Inr (s1, Some (await_create_activity task out))
           \<and> agent_counters (Inr s1) a
               = Some (js_add (completedTasks agent) 1,
                       js_add (totalTokens agent) (tokens_or_zero d))
           \<and> activities (db s1) = activities (db s)"
  using a g
  by (auto simp: agent_counters_def find_agent_update_agents)
     (simp add: update_agents_def)

lemma create_activity_step:
  "end_step env rid d (await_create_activity task out) s = Inr (s1, n) \<Longrightarrow>
   n = None \<and> activities (db s1) = activities (db s) @ [completed_activity env task rid]
   \<and> agents (db s1) = agents (db s)"
  by (auto simp: completed_activity_def emitTaskUpdate_def emitAgentUpdate_def Let_def
        dest!: createActivity_Inr split: sum.splits option.splits)

lemma other_steps_activities:
  "end_step env rid d place s = Inr (s1, n) \<Longrightarrow> \<forall>t out. place \<noteq> await_create_activity t out \<Longrightarrow>
   activities (db s1) = activities (db s)"
  by (cases place)
     (auto simp: flushAndClear_def update_tasks_def update_agents_def Let_def
        split: option.splits)

lemma other_steps_agents:
  "end_step env rid d place s = Inr (s1, n) \<Longrightarrow> \<forall>t out g. place \<noteq> await_update_agent t out g \<Longrightarrow>
   agents (db s1) = agents (db s)"
  by (cases place)
     (auto simp: flushAndClear_def update_tasks_def Let_def
        dest!: create_activity_step [unfolded end_step.simps] split: option.splits)

lemma handler_is_uninterrupted_run:
  "state_after (run_schedule [0, 0, 0, 0, 0] (s, [dispatched env rid d]))
     = handleLifecycleEnd env rid sk d s"
proof (cases "findTaskByRunId (db s) rid")
  case None
  then show ?thesis
    by (simp add: state_after_def handleLifecycleEnd_def dispatched_def advance_def)
next
  case (Some task)
  note t = Some
  show ?thesis
  proof (cases "assigned_agent task")
    case None
    then show ?thesis using t
      by (simp add: state_after_def handleLifecycleEnd_def dispatched_def advance_def
            flushAndClear_def Let_def split: sum.splits)
  next
    case (Some a)
    note a = Some
    show ?thesis
    proof (cases "find_agent (db s) a")
      case None
      then show ?thesis using t a
        by (simp add: state_after_def handleLifecycleEnd_def dispatched_def advance_def
              flushAndClear_def Let_def split: sum.splits)
    next
      case (Some agent)
      then show ?thesis using t a
        by (simp add: state_after_def handleLifecycleEnd_def dispatched_def advance_def
              flushAndClear_def Let_def split: sum.splits)
    qed
  qed
qed

lemma js_add_exact: "\<bar>x + y\<bar> \<le> 2 ^ 53 \<Longrightarrow> js_add x y = x + y"
  by (simp add: js_add_def round_double_def)

lemma double_exponent_ceiling: "double_exponent (2 ^ 53 + 1) = 1"
proof -
  have "double_exponent (2 ^ 53 + 1) = Suc (double_exponent ((2 ^ 53 + 1) div 2))"
    by (subst double_exponent.simps) simp
  also have "double_exponent ((2 ^ 53 + 1) div 2) = 0"
    by (subst double_exponent.simps) simp
  finally show ?thesis by simp
qed

lemma js_add_ceiling: "js_add (2 ^ 53) 1 = 2 ^ 53"
proof -
  have n: "nat \<bar>2 ^ 53 + 1 :: int\<bar> = 2 ^ 53 + 1" by simp
  show ?thesis
    unfolding js_add_def round_double_def Let_def n double_exponent_ceiling
    by simp
qed

lemma lifecycle_end_step:
  assumes t: "findTaskByRunId (db s) rid = Some task"
      and a: "assigned_agent task = Some a"
      and g: "find_agent (db s) a = Some agent"
      and r: "handleLifecycleEnd env rid sk d s = Inr s'"
  shows "find_agent (db s') a = Some (credited env d agent)"
    and "activities (db s') = activities (db s) @ [completed_activity env task rid]"
    and "tasks (db s') = map (\<lambda>t. if task_id t = task_id task
            then t\<lparr>status := Done, outcome := Some Success,
                   task_output := Some (getOutputBuffer (outputAccumulators s) rid),
                   completedAt := Some (clock env), tokensUsed := tokens_or_zero d\<rparr> else t) (tasks (db s))"
    and "outputAccumulators s' = (outputAccumulators s)(rid := None)"
proof -
  let ?d1 = "update_tasks (task_id task)
                      (\<lambda>t. t\<lparr>status := Done, outcome := Some Success,
                             task_output := Some (getOutputBuffer (outputAccumulators s) rid),
                             completedAt := Some (clock env), tokensUsed := tokens_or_zero d\<rparr>)
                      (db s)"
  let ?d2 = "update_agents a
                                (\<lambda>g. g\<lparr>agent_state := Idle,
                                       completedTasks := js_add (completedTasks agent) 1,
                                       totalTokens := js_add (totalTokens agent) (tokens_or_zero d),
                                       lastActiveAt := Some (clock env)\<rparr>) ?d1"
  obtain d3 where c: "createActivity env (Some (task_id task)) (assignedAgentId task)
                       task_completed [(''runId'', rid), (''outcome'', ''success'')] ?d2 = Inr d3"
    and s': "s' = emitAgentUpdate env a [agent_status_change Idle]
                    (emitTaskUpdate env (task_id task)
                       [status_change Done, outcome_change Success,
                        output_change (getOutputBuffer (outputAccumulators s) rid),
                        completedAt_change (clock env)]
                       (s\<lparr>outputAccumulators := (outputAccumulators s)(rid := None), db := d3\<rparr>))"
    using r t a g
    by (auto simp: handleLifecycleEnd_def flushAndClear_def Let_def split: sum.splits)
  have d3: "d3 = ?d2\<lparr>activities := activities ?d2 @ [completed_activity env task rid]\<rparr>"
    using createActivity_Inr [OF c] by (simp add: completed_activity_def)
  have db: "db s' = d3" by (simp add: s' emitAgentUpdate_def emitTaskUpdate_def)
  have "find_agent ?d2 a = Some (credited env d agent)"
    using g by (simp add: find_agent_update_agents credited_def)
  then show "find_agent (db s') a = Some (credited env d agent)"
    by (simp add: db d3 find_agent_def)
  show "activities (db s') = activities (db s) @ [completed_activity env task rid]"
    by (simp add: db d3 update_agents_def update_tasks_def)
  show "tasks (db s') = map (\<lambda>t. if task_id t = task_id task
            then t\<lparr>status := Done, outcome := Some Success,
                   task_output := Some (getOutputBuffer (outputAccumulators s) rid),
                   completedAt := Some (clock env), tokensUsed := tokens_or_zero d\<rparr> else t) (tasks (db s))"
    by (simp add: db d3 update_agents_def update_tasks_def)
  show "outputAccumulators s' = (outputAccumulators s)(rid := None)"
    by (simp add: s' emitAgentUpdate_def emitTaskUpdate_def)
qed

text \<open>
  C1 as stated fails: the same \<open>LifecycleEnd\<close> delivered twice for run \<open>r1\<close>, the second
  handled after the first has returned, credits the agent twice (2 completed tasks, 84
  tokens for an event of 42) and leaves two task-completed audit records; the task is
  already \<open>Done\<close> when the second arrives.
\<close>

theorem duplicate_end_counted_twice_counterexample:
  "agent_counters (Inr bridge_example) ''a1'' = Some (0, 0)
   \<and> agent_counters (bridge_run [(env_example 1 ''x'', lifecycle_end ''r1'' ''s1'' end_data_example)]
        bridge_example) ''a1'' = Some (1, 42)
   \<and> task_statuses (bridge_run [(env_example 1 ''x'', lifecycle_end ''r1'' ''s1'' end_data_example)]
        bridge_example) = [Done]
   \<and> agent_counters (bridge_run [(env_example 1 ''x'', lifecycle_end ''r1'' ''s1'' end_data_example),
         (env_example 2 ''y'', lifecycle_end ''r1'' ''s1'' end_data_example)] bridge_example) ''a1''
       = Some (2, 84)
   \<and> audit_actions (bridge_run [(env_example 1 ''x'', lifecycle_end ''r1'' ''s1'' end_data_example),
         (env_example 2 ''y'', lifecycle_end ''r1'' ''s1'' end_data_example)] bridge_example)
       = [task_completed, task_completed]"
  by (simp add: agent_counters_def audit_actions_def task_statuses_def example_defs
        end_data_example_def handler_defs Let_def)

text \<open>
  C1, amended. \<open>handleLifecycleEnd\<close> has no guard on the task's status and is not
  idempotent. A handler that finds the task and its agent reads the agent row and, at
  a later step, writes the counters as the \<open>completedTasks\<close> it read plus one and the
  \<open>totalTokens\<close> it read plus the event's token count (in double arithmetic: exact up
  to \<open>2 ^ 53\<close>, where adding one changes nothing), whatever the row holds by then; it
  appends one task-completed audit record at its last step; no other step of it
  touches the agent rows or the audit records. Run from its first step to its last with
  no other handler in between, as when a re-delivery arrives after the first delivery
  has been handled, it therefore raises the counters once more and appends one more
  record, also for a task already \<open>Done\<close>. Two handlers of the same event that overlap,
  each step of one followed by the same step of the other, both read the counters
  before either writes: of a store with counters 0 and 0 and an event of 42 tokens they
  leave the counters 1 and 42, and two task-completed audit records.
\<close>

theorem lifecycle_end_not_idempotent:
  "(assigned_agent task = Some a \<and> find_agent (db s) a = Some agent \<longrightarrow>
      end_step env rid d (await_find_agent task out) s
        = Inr (s, Some (await_update_agent task out agent)))
   \<and> (assigned_agent task = Some a \<and> find_agent (db s2) a \<noteq> None \<longrightarrow>
        (\<exists>s3. end_step env rid d (await_update_agent task out agent) s2
                 = Inr (s3, Some (await_create_activity task out))
           \<and> agent_counters (Inr s3) a
               = Some (js_add (completedTasks agent) 1,
                       js_add (totalTokens agent) (tokens_or_zero d))
           \<and> activities (db s3) = activities (db s2)))
   \<and> (end_step env rid d (await_create_activity task out) s = Inr (s4, n4) \<longrightarrow>
        n4 = None
        \<and> activities (db s4) = activities (db s) @ [completed_activity env task rid]
        \<and> agents (db s4) = agents (db s))
   \<and> (end_step env rid d place s = Inr (s5, n5)
        \<and> (\<forall>t tx. place \<noteq> await_create_activity t tx) \<longrightarrow>
        activities (db s5) = activities (db s))
   \<and> (end_step env rid d place s = Inr (s5, n5)
        \<and> (\<forall>t tx g. place \<noteq> await_update_agent t tx g) \<longrightarrow>
        agents (db s5) = agents (db s))
   \<and> state_after (run_schedule [0, 0, 0, 0, 0] (s, [dispatched env rid d]))
       = handleLifecycleEnd env rid sk d s
   \<and> (findTaskByRunId (db s) rid = Some task \<and> assigned_agent task = Some a
        \<and> find_agent (db s) a = Some agent \<and> handleLifecycleEnd env rid sk d s = Inr s' \<longrightarrow>
        agent_counters (Inr s') a
          = Some (js_add (completedTasks agent) 1,
                  js_add (totalTokens agent) (tokens_or_zero d))
        \<and> audit_actions (Inr s') = audit_actions (Inr s) @ [task_completed])
   \<and> (\<bar>x + y\<bar> \<le> 2 ^ 53 \<longrightarrow> js_add x y = x + y)
   \<and> js_add (2 ^ 53) 1 = 2 ^ 53
   \<and> agent_counters (Inr bridge_example) ''a1'' = Some (0, 0)
   \<and> agent_counters
        (state_after (run_schedule [0, 1, 0, 1, 0, 1, 0, 1, 0, 1]
           (bridge_example,
            [dispatched (env_example 1 ''x'') ''r1'' end_data_example,
             dispatched (env_example 2 ''y'') ''r1'' end_data_example]))) ''a1''
       = Some (1, 42)
   \<and> audit_actions
        (state_after (run_schedule [0, 1, 0, 1, 0, 1, 0, 1, 0, 1]
           (bridge_example,
            [dispatched (env_example 1 ''x'') ''r1'' end_data_example,
             dispatched (env_example 2 ''y'') ''r1'' end_data_example])))
       = [task_completed, task_completed]
   \<and> all_returned (run_schedule [0, 1, 0, 1, 0, 1, 0, 1, 0, 1]
           (bridge_example,
            [dispatched (env_example 1 ''x'') ''r1'' end_data_example,
             dispatched (env_example 2 ''y'') ''r1'' end_data_example]))"
proof -
  have c1: "assigned_agent task = Some a \<and> find_agent (db s) a = Some agent \<longrightarrow>
      end_step env rid d (await_find_agent task out) s
        = Inr (s, Some (await_update_agent task out agent))"
    by simp
  have c2: "assigned_agent task = Some a \<and> find_agent (db s2) a \<noteq> None \<longrightarrow>
        (\<exists>s3. end_step env rid d (await_update_agent task out agent) s2
                 = Inr (s3, Some (await_create_activity task out))
           \<and> agent_counters (Inr s3) a
               = Some (js_add (completedTasks agent) 1,
                       js_add (totalTokens agent) (tokens_or_zero d))
           \<and> activities (db s3) = activities (db s2))"
    using update_agent_step by blast
  have c3: "end_step env rid d (await_create_activity task out) s = Inr (s4, n4) \<longrightarrow>
        n4 = None
        \<and> activities (db s4) = activities (db s) @ [completed_activity env task rid]
        \<and> agents (db s4) = agents (db s)"
    using create_activity_step by blast
  have c4: "end_step env rid d place s = Inr (s5, n5)
        \<and> (\<forall>t tx. place \<noteq> await_create_activity t tx) \<longrightarrow>
        activities (db s5) = activities (db s)"
    using other_steps_activities by blast
  have c5: "end_step env rid d place s = Inr (s5, n5)
        \<and> (\<forall>t tx g. place \<noteq> await_update_agent t tx g) \<longrightarrow>
        agents (db s5) = agents (db s)"
    using other_steps_agents by blast
  have c6: "state_after (run_schedule [0, 0, 0, 0, 0] (s, [dispatched env rid d]))
       = handleLifecycleEnd env rid sk d s"
    by (rule handler_is_uninterrupted_run)
  have c7: "findTaskByRunId (db s) rid = Some task \<and> assigned_agent task = Some a
        \<and> find_agent (db s) a = Some agent \<and> handleLifecycleEnd env rid sk d s = Inr s' \<longrightarrow>
        agent_counters (Inr s') a
          = Some (js_add (completedTasks agent) 1,
                  js_add (totalTokens agent) (tokens_or_zero d))
        \<and> audit_actions (Inr s') = audit_actions (Inr s) @ [task_completed]"
  proof (intro impI, elim conjE)
    assume h: "findTaskByRunId (db s) rid = Some task" "assigned_agent task = Some a"
      "find_agent (db s) a = Some agent" "handleLifecycleEnd env rid sk d s = Inr s'"
    show "agent_counters (Inr s') a
          = Some (js_add (completedTasks agent) 1,
                  js_add (totalTokens agent) (tokens_or_zero d))
        \<and> audit_actions (Inr s') = audit_actions (Inr s) @ [task_completed]"
      using lifecycle_end_step(1,2) [OF h]
      by (simp add: agent_counters_def audit_actions_def credited_def completed_activity_def)
  qed
  have c8: "\<bar>x + y\<bar> \<le> 2 ^ 53 \<longrightarrow> js_add x y = x + y"
    using js_add_exact by blast
  have c9: "js_add (2 ^ 53) 1 = 2 ^ 53" by (rule js_add_ceiling)
  have c10: "agent_counters (Inr bridge_example) ''a1'' = Some (0, 0)"
    by (simp add: agent_counters_def find_agent_def example_defs)
  have c11: "agent_counters
        (state_after (run_schedule [0, 1, 0, 1, 0, 1, 0, 1, 0, 1]
           (bridge_example,
            [dispatched (env_example 1 ''x'') ''r1'' end_data_example,
             dispatched (env_example 2 ''y'') ''r1'' end_data_example]))) ''a1''
       = Some (1, 42)"
    by (simp add: state_after_def all_returned_def agent_counters_def audit_actions_def
          advance_def dispatched_def example_defs end_data_example_def handler_defs Let_def)
  have c12: "audit_actions
        (state_after (run_schedule [0, 1, 0, 1, 0, 1, 0, 1, 0, 1]
           (bridge_example,
            [dispatched (env_example 1 ''x'') ''r1'' end_data_example,
             dispatched (env_example 2 ''y'') ''r1'' end_data_example])))
       = [task_completed, task_completed]"
    by (simp add: state_after_def all_returned_def agent_counters_def audit_actions_def
          advance_def dispatched_def example_defs end_data_example_def handler_defs Let_def)
  have c13: "all_returned (run_schedule [0, 1, 0, 1, 0, 1, 0, 1, 0, 1]
           (bridge_example,
            [dispatched (env_example 1 ''x'') ''r1'' end_data_example,
             dispatched (env_example 2 ''y'') ''r1'' end_data_example]))"
    by (simp add: state_after_def all_returned_def agent_counters_def audit_actions_def
          advance_def dispatched_def example_defs end_data_example_def handler_defs Let_def)
  show ?thesis
    using c1 c2 c3 c4 c5 c6 c7 c8 c9 c10 c11 c12 c13 by blast
qed

theorem lifecycle_end_not_idempotent_witness:
  "task_statuses (Inr bridge_done_example) = [Done]
   \<and> agent_counters (Inr bridge_done_example) ''a1'' = Some (1, 42)
   \<and> agent_counters (handleLifecycleEnd (env_example 2 ''y'') ''r1'' ''s1'' end_data_example
        bridge_done_example) ''a1'' = Some (2, 84)
   \<and> audit_actions (handleLifecycleEnd (env_example 2 ''y'') ''r1'' ''s1'' end_data_example
        bridge_done_example) = [task_completed, task_completed]"
proof -
  let ?task = "task_example\<lparr>status := Done, outcome := Some Success, task_output := Some [],
                            completedAt := Some 1, tokensUsed := 42\<rparr>"
  let ?agent = "agent_example\<lparr>agent_state := Idle, completedTasks := 1, totalTokens := 42,
                              lastActiveAt := Some 1\<rparr>"
  have t: "findTaskByRunId (db bridge_done_example) ''r1'' = Some ?task"
    by (simp add: bridge_done_example_def findTaskByRunId_def task_example_def)
  have a: "assigned_agent ?task = Some ''a1''"
    by (simp add: assigned_agent_def task_example_def)
  have g: "find_agent (db bridge_done_example) ''a1'' = Some ?agent"
    by (simp add: bridge_done_example_def find_agent_def agent_example_def)
  obtain s' where r: "handleLifecycleEnd (env_example 2 ''y'') ''r1'' ''s1'' end_data_example
        bridge_done_example = Inr s'"
    by (simp add: bridge_done_example_def completed_activity_def example_defs
          end_data_example_def handler_defs Let_def)
  have th: "agent_counters (Inr s') ''a1''
          = Some (js_add (completedTasks ?agent) 1,
                  js_add (totalTokens ?agent) (tokens_or_zero end_data_example))
        \<and> audit_actions (Inr s') = audit_actions (Inr bridge_done_example) @ [task_completed]"
    using t a g r
      lifecycle_end_not_idempotent [where s = bridge_done_example and task = ?task
        and a = "''a1''" and agent = ?agent and env = "env_example 2 ''y''" and rid = "''r1''"
        and sk = "''s1''" and d = end_data_example and s' = s']
    by blast
  have c: "agent_counters (Inr s') ''a1'' = Some (2, 84)"
    using th by (simp add: agent_example_def tokens_or_zero_def end_data_example_def
          js_add_def round_double_def)
  have d: "audit_actions (Inr s') = [task_completed, task_completed]"
    using th by (simp add: audit_actions_def bridge_done_example_def completed_activity_def)
  have e: "task_statuses (Inr bridge_done_example) = [Done]
           \<and> agent_counters (Inr bridge_done_example) ''a1'' = Some (1, 42)"
    by (simp add: task_statuses_def agent_counters_def bridge_done_example_def find_agent_def
          agent_example_def)
  show ?thesis using c d e r by simp
qed

subsection \<open>The output accumulator\<close>












subsection \<open>Orphan events\<close>

text \<open>
  C4 as stated fails: an \<open>AssistantDelta\<close> of a run with no task creates an accumulator
  entry for that run.
\<close>

theorem orphan_delta_accumulates_counterexample:
  "findTaskByRunId (db bridge_example) ''r2'' = None
   \<and> accumulator_entry ''r2'' (Inr bridge_example) = None
   \<and> accumulator_entry ''r2''
        (bridge_step (env_example 1 ''a'') (assistant_delta ''r2'' ''x'') bridge_example) = Some ''x''"
  by (simp add: accumulator_entry_def example_defs handler_defs Let_def)

text \<open>
  C4, amended. An event whose run has no task is handled without failure, changes no
  task, agent, audit or output-buffer row and emits no broadcast, and the events after
  it are handled from the resulting state; the accumulators are unchanged as well,
  except that an \<open>AssistantDelta\<close> appends its text to the entry of its run
  (\<open>handleAssistantDelta\<close> accumulates before it looks the task up).
\<close>

theorem orphan_event:
  assumes "findTaskByRunId (db s) (event_runId ev) = None"
  shows "\<exists>s1. bridge_step env ev s = Inr s1
           \<and> db s1 = db s
           \<and> ws_broadcast s1 = ws_broadcast s
           \<and> outputAccumulators s1 =
               (case ev of
                  assistant_delta rid tx \<Rightarrow> snd (accumulate rid tx (outputAccumulators s))
                | _ \<Rightarrow> outputAccumulators s)
           \<and> bridge_run ((env, ev) # rest) s = bridge_run rest s1"
  using assms
  by (cases ev)
     (simp_all add: handleLifecycleStart_def handleLifecycleEnd_def handleLifecycleError_def
        handleToolCall_def handleAssistantDelta_def handleAssistantFinal_def accumulate_def
        Let_def)

theorem orphan_event_witness:
  "findTaskByRunId (db bridge_example) ''r2'' = None
   \<and> bridge_step (env_example 1 ''a'') (tool_call ''r2'' ''search'' None) bridge_example
       = Inr bridge_example
   \<and> bridge_step (env_example 2 ''b'') (assistant_delta ''r2'' ''x'') bridge_example
       = Inr (bridge_example\<lparr>outputAccumulators := [''r2'' \<mapsto> ''x'']\<rparr>)"
proof -
  have h: "findTaskByRunId (db bridge_example) ''r2'' = None"
    by (simp add: findTaskByRunId_def example_defs)
  have h1: "findTaskByRunId (db bridge_example) (event_runId (tool_call ''r2'' ''search'' None)) = None"
    and h2: "findTaskByRunId (db bridge_example) (event_runId (assistant_delta ''r2'' ''x'')) = None"
    using h by simp_all
  obtain s1 where s1: "bridge_step (env_example 1 ''a'') (tool_call ''r2'' ''search'' None) bridge_example = Inr s1"
    and e1: "db s1 = db bridge_example" "ws_broadcast s1 = ws_broadcast bridge_example"
        "outputAccumulators s1 = outputAccumulators bridge_example"
    using orphan_event [OF h1, of "env_example 1 ''a''" "[]"] by auto
  obtain s2 where s2: "bridge_step (env_example 2 ''b'') (assistant_delta ''r2'' ''x'') bridge_example = Inr s2"
    and e2: "db s2 = db bridge_example" "ws_broadcast s2 = ws_broadcast bridge_example"
        "outputAccumulators s2 = snd (accumulate ''r2'' ''x'' (outputAccumulators bridge_example))"
    using orphan_event [OF h2, of "env_example 2 ''b''" "[]"] by auto
  have "s1 = bridge_example" using e1 by simp
  moreover have "s2 = bridge_example\<lparr>outputAccumulators := [''r2'' \<mapsto> ''x'']\<rparr>"
    using e2 by (simp add: accumulate_def getOutputBuffer_def bridge_example_def Let_def)
  ultimately show ?thesis using h s1 s2 by simp
qed

subsection \<open>Terminal events and the accumulator entry\<close>

text \<open>
  C5. The claim asks that no accumulator entry remain for a run once its \<open>LifecycleEnd\<close>
  or \<open>LifecycleError\<close> has been handled. \<open>handleLifecycleEnd\<close> deletes the entry;
  \<open>handleLifecycleError\<close> never touches the map. For run \<open>r1\<close> of the example store, a
  delta followed by \<open>LifecycleError\<close> leaves the entry in place, while the same delta
  followed by \<open>LifecycleEnd\<close> leaves none.
\<close>

theorem lifecycle_error_keeps_accumulator:
  "accumulator_entry ''r1''
     (bridge_run [(env_example 1 ''a'', assistant_delta ''r1'' ''partial''),
                  (env_example 2 ''b'', lifecycle_error ''r1'' ''s1'' ''boom'')] bridge_example)
     = Some ''partial''
   \<and> accumulator_entry ''r1''
     (bridge_run [(env_example 1 ''a'', assistant_delta ''r1'' ''partial''),
                  (env_example 2 ''b'', lifecycle_end ''r1'' ''s1'' end_data_example)] bridge_example)
     = None"
  by (simp add: accumulator_entry_def example_defs end_data_example_def handler_defs Let_def)

subsection \<open>Output-buffer rows\<close>

text \<open>
  C6. The claim asks for at most one output-buffer row per run. \<open>handleLifecycleStart\<close>
  inserts a row under a freshly generated \<open>id\<close>, and \<open>onConflictDoNothing\<close> guards only
  that primary key, so a second \<open>LifecycleStart\<close> of run \<open>r1\<close> adds a second row for
  \<open>r1\<close>.
\<close>

theorem duplicate_start_two_buffers:
  "buffer_runs
     (bridge_run [(env_example 1 ''a'', lifecycle_start ''r1'' ''s1'' start_data_example),
                  (env_example 2 ''b'', lifecycle_start ''r1'' ''s1'' start_data_example)]
        bridge_example)
     = [''r1'', ''r1'']"
  by (simp add: buffer_runs_def start_data_example_def example_defs handler_defs Let_def)

end
